theory Spec2Isabelle
  imports Complex_Main
begin

section \<open>BioSync Pro: data model of \<^verbatim>\<open>src/App.tsx\<close>\<close>

text \<open>
  JavaScript numbers. The component stores heart rate, temperature and oxygen saturation as
  \<^verbatim>\<open>number\<close>. The model keeps the one special value the parser can produce, \<open>NaN\<close>
  (\<^verbatim>\<open>parseFloat\<close> of a capture without a leading number), and represents every other
  number by a rational. A number read from decimal text (by \<^verbatim>\<open>parseInt\<close> or
  \<^verbatim>\<open>parseFloat\<close>) is represented by the value of that text; the arithmetic of the demo
  generator is rounded to binary64 as the code's is (see \<open>fl64\<close> below).
\<close>

datatype jsnum = NaN | Num rat

text \<open>\<^verbatim>\<open>interface DataPoint\<close> (lines 7-12).\<close>

record DataPoint =
  time :: string
  heartRate :: jsnum
  temperature :: jsnum
  oxygen :: jsnum

text \<open>
  The log lines and the error texts are fixed (non-ASCII) string literals of the source with
  one interpolated value; each constructor stands for one literal:
  \<open>LogSearching\<close> line 68, \<open>LogDevice name\<close> line 74, \<open>LogConnected\<close> line 78,
  \<open>LogListening\<close> line 84, \<open>LogDisconnected\<close> line 107, \<open>LogDemo\<close> line 150;
  \<open>ErrPermission\<close> line 95 and \<open>ErrConnectFailed message\<close> line 97.
  A log entry is the pair of the \<^verbatim>\<open>toLocaleTimeString\<close> stamp and the message (line 36).
\<close>

datatype log_msg =
  LogSearching | LogDevice string | LogConnected | LogListening | LogDisconnected | LogDemo

datatype err_text = ErrPermission | ErrConnectFailed string

text \<open>
  The nine \<^verbatim>\<open>useState\<close> cells of \<^verbatim>\<open>App\<close> (lines 18-28). A paired device is
  represented by its name.
\<close>

record app_state =
  isConnected :: bool
  isDemoMode :: bool
  device :: "string option"
  data :: "DataPoint list"
  currentHR :: jsnum
  currentTemp :: jsnum
  currentSpO2 :: jsnum
  logs :: "(string \<times> log_msg) list"
  errorMsg :: "err_text option"

definition MAX_DATA_POINTS :: nat where
  "MAX_DATA_POINTS = 60"

text \<open>The initial values passed to \<^verbatim>\<open>useState\<close>.\<close>

definition initial_state :: app_state where
  "initial_state =
     \<lparr>isConnected = False, isDemoMode = False, device = None, data = [],
      currentHR = Num 0, currentTemp = Num 0, currentSpO2 = Num 0,
      logs = [], errorMsg = None\<rparr>"

subsection \<open>Helpers of the component\<close>

text \<open>
  \<^verbatim>\<open>addLog\<close> (lines 35-37): the new entry goes in front of the first four old ones. The
  clock reading is an input of the model.
\<close>

definition addLog :: "string \<Rightarrow> log_msg \<Rightarrow> app_state \<Rightarrow> app_state" where
  "addLog now msg s = s\<lparr>logs := (now, msg) # take 4 (logs s)\<rparr>"

text \<open>
  The updater passed to \<^verbatim>\<open>setData\<close> (lines 48-59): append, then keep the last
  \<open>MAX_DATA_POINTS\<close> entries when there are more (\<^verbatim>\<open>slice(newData.length - 60)\<close>).
\<close>

definition appendPoint :: "DataPoint list \<Rightarrow> DataPoint \<Rightarrow> DataPoint list" where
  "appendPoint prevData p =
     (let newData = prevData @ [p]
      in if length newData > MAX_DATA_POINTS
         then drop (length newData - MAX_DATA_POINTS) newData
         else newData)"

text \<open>
  \<^verbatim>\<open>updateData\<close> (lines 43-60). \<open>now\<close> is the text \<^verbatim>\<open>formatTime(new Date())\<close>
  returns at the call.
\<close>

definition updateData :: "string \<Rightarrow> jsnum \<Rightarrow> jsnum \<Rightarrow> jsnum \<Rightarrow> app_state \<Rightarrow> app_state" where
  "updateData now hr temp spo2 s =
     s\<lparr>currentHR := hr, currentTemp := temp, currentSpO2 := spo2,
       data := appendPoint (data s)
                 \<lparr>time = now, heartRate = hr, temperature = temp, oxygen = spo2\<rparr>\<rparr>"

text \<open>A sequence of calls of \<^verbatim>\<open>updateData\<close>, oldest first.\<close>

type_synonym reading = "string \<times> jsnum \<times> jsnum \<times> jsnum"

definition point_of :: "reading \<Rightarrow> DataPoint" where
  "point_of r = (case r of (now, hr, temp, spo2) \<Rightarrow>
     \<lparr>time = now, heartRate = hr, temperature = temp, oxygen = spo2\<rparr>)"

fun updateAll :: "reading list \<Rightarrow> app_state \<Rightarrow> app_state" where
  "updateAll [] s = s"
| "updateAll (r # rs) s =
     (case r of (now, hr, temp, spo2) \<Rightarrow> updateAll rs (updateData now hr temp spo2 s))"

section \<open>The payload parser\<close>

text \<open>
  The payload is the text \<^verbatim>\<open>decoder.decode(value).trim()\<close> (lines 114-116). A string is
  the list of its code units; HOL's \<open>char\<close> covers the units below 256, which contain the
  whole wire format (ASCII). \<open>js_trim\<close> removes the white space and line terminators of
  ECMAScript in that range from both ends.
\<close>

definition is_space :: "char \<Rightarrow> bool" where
  "is_space c = (of_char c \<in> {9, 10, 11, 12, 13, 32, 160 :: nat})"

definition js_trim :: "string \<Rightarrow> string" where
  "js_trim t = rev (dropWhile is_space (rev (dropWhile is_space t)))"

text \<open>The character classes \<^verbatim>\<open>\d\<close> and \<^verbatim>\<open>[\d.]\<close> of the three patterns.\<close>

definition is_digit :: "char \<Rightarrow> bool" where
  "is_digit c = (c \<in> set ''0123456789'')"

definition is_digit_or_dot :: "char \<Rightarrow> bool" where
  "is_digit_or_dot c = (is_digit c \<or> c = CHR ''.'')"

text \<open>
  \<^verbatim>\<open>text.match(/K:(C+)/)\<close> for a key letter \<open>K\<close> and a character class \<open>C\<close>, reduced to
  what the handler reads of the result: \<open>None\<close> for \<^verbatim>\<open>null\<close>, otherwise capture group 1.
  The engine tries the start positions from left to right; at a position the pattern matches
  when \<open>K\<close>, a colon and one character of the class follow, and the greedy \<^verbatim>\<open>+\<close> captures
  the whole run of class characters.
\<close>

fun match_field :: "char \<Rightarrow> (char \<Rightarrow> bool) \<Rightarrow> string \<Rightarrow> string option" where
  "match_field k cls (a # b # c # cs) =
     (if a = k \<and> b = CHR '':'' \<and> cls c then Some (takeWhile cls (c # cs))
      else match_field k cls (b # c # cs))"
| "match_field k cls _ = None"

text \<open>Lines 124, 127 and 130.\<close>

definition hrMatch :: "string \<Rightarrow> string option" where
  "hrMatch text = match_field (CHR ''H'') is_digit text"

definition tempMatch :: "string \<Rightarrow> string option" where
  "tempMatch text = match_field (CHR ''T'') is_digit_or_dot text"

definition spo2Match :: "string \<Rightarrow> string option" where
  "spo2Match text = match_field (CHR ''O'') is_digit text"

text \<open>The value of a run of decimal digits.\<close>

definition digit_val :: "char \<Rightarrow> nat" where
  "digit_val c = of_char c - 48"

definition decimal :: "string \<Rightarrow> nat" where
  "decimal ds = foldl (\<lambda>n c. 10 * n + digit_val c) 0 ds"

text \<open>
  \<^verbatim>\<open>parseInt\<close> and \<^verbatim>\<open>parseFloat\<close> on the strings the captures can hold (digits, and for
  the temperature also dots): no sign, white space, radix prefix or exponent occurs in them.
  Both read the longest prefix that is a number and give \<open>NaN\<close> when that prefix is empty.
  For \<^verbatim>\<open>parseFloat\<close> the prefix is \<^verbatim>\<open>digits\<close>, \<^verbatim>\<open>digits.\<close>, \<^verbatim>\<open>digits.digits\<close> or
  \<^verbatim>\<open>.digits\<close> (the StrDecimalLiteral of ECMAScript without exponent).
\<close>

definition parseInt :: "string \<Rightarrow> jsnum" where
  "parseInt g =
     (let ip = takeWhile is_digit g
      in if ip = [] then NaN else Num (of_nat (decimal ip)))"

definition parseFloat :: "string \<Rightarrow> jsnum" where
  "parseFloat g =
     (let ip = takeWhile is_digit g;
          fp = (case dropWhile is_digit g of
                  [] \<Rightarrow> []
                | c # cs \<Rightarrow> if c = CHR ''.'' then takeWhile is_digit cs else [])
      in if ip = [] \<and> fp = [] then NaN
         else Num (of_nat (decimal ip) + of_nat (decimal fp) / 10 ^ length fp))"

text \<open>
  \<^verbatim>\<open>handleCharacteristicValueChanged\<close> (lines 113-138). The function is a closure of one
  render of \<^verbatim>\<open>App\<close>: its free variables \<^verbatim>\<open>currentHR\<close>, \<^verbatim>\<open>currentTemp\<close> and
  \<^verbatim>\<open>currentSpO2\<close> are the constants that render bound at lines 23-25. The argument
  \<open>r\<close> is the state that render saw; \<open>s\<close> is the state the setters act on when the
  notification arrives. Nothing in the \<^verbatim>\<open>try\<close> block throws, so the \<^verbatim>\<open>catch\<close> branch
  has no counterpart.
\<close>

definition handleCharacteristicValueChanged ::
  "app_state \<Rightarrow> string \<Rightarrow> string \<Rightarrow> app_state \<Rightarrow> app_state" where
  "handleCharacteristicValueChanged r now payload s =
     (let text = js_trim payload;
          hr = currentHR r; temp = currentTemp r; spo2 = currentSpO2 r; updated = False;
          hrM = hrMatch text;
          hr = (case hrM of Some g \<Rightarrow> parseInt g | None \<Rightarrow> hr);
          updated = (case hrM of Some g \<Rightarrow> True | None \<Rightarrow> updated);
          tempM = tempMatch text;
          temp = (case tempM of Some g \<Rightarrow> parseFloat g | None \<Rightarrow> temp);
          updated = (case tempM of Some g \<Rightarrow> True | None \<Rightarrow> updated);
          spo2M = spo2Match text;
          spo2 = (case spo2M of Some g \<Rightarrow> parseInt g | None \<Rightarrow> spo2);
          updated = (case spo2M of Some g \<Rightarrow> True | None \<Rightarrow> updated)
      in if updated then updateData now hr temp spo2 s else s)"

section \<open>The demo generator\<close>

text \<open>
  The generator computes with JavaScript numbers, that is IEEE 754 binary64 with rounding to
  nearest, ties to even. \<open>fl64 x\<close> is the double nearest to the rational \<open>x\<close>: with
  \<open>e\<close> the binary exponent of \<open>x\<close>, the result is the multiple of \<open>2 ^ (e - 52)\<close>
  nearest to \<open>x\<close> (of \<open>2 ^ - 1074\<close> in the subnormal range), the one with the even
  multiplier on a tie. Overflow to infinity is left out: the generator's numbers stay below
  128. A product, sum or difference of doubles is \<open>fl64\<close> of the exact result, and a
  decimal literal is \<open>fl64\<close> of its value.
\<close>

text \<open>The number of binary digits of a positive integer.\<close>

function bit_length :: "int \<Rightarrow> int" where
  "bit_length n = (if n \<le> 0 then 0 else 1 + bit_length (n div 2))"
  by pat_completeness auto
termination
  by (relation "measure nat") auto

declare bit_length.simps [simp del]

definition pow2 :: "int \<Rightarrow> rat" where
  "pow2 k = (if 0 \<le> k then 2 ^ nat k else 1 / 2 ^ nat (- k))"

text \<open>The binary exponent \<open>\<lfloor>log\<^sub>2 a\<rfloor>\<close> of a positive rational.\<close>

definition binary_exponent :: "rat \<Rightarrow> int" where
  "binary_exponent a =
     (case quotient_of a of (p, q) \<Rightarrow>
        (let k = bit_length p - bit_length q
         in if pow2 k \<le> a then k else k - 1))"

definition round_half_even :: "rat \<Rightarrow> int" where
  "round_half_even r =
     (let f = \<lfloor>r\<rfloor>; d = r - of_int f
      in if d < 1 / 2 then f
         else if 1 / 2 < d then f + 1
         else if even f then f else f + 1)"

definition fl64 :: "rat \<Rightarrow> rat" where
  "fl64 x =
     (if x = 0 then 0
      else (let a = \<bar>x\<bar>;
                ulp = pow2 (max (binary_exponent a - 52) (- 1074))
            in sgn x * of_int (round_half_even (a / ulp)) * ulp))"

text \<open>
  The interval callback (lines 151-170). \<open>u1\<close>, \<open>u2\<close>, \<open>u3\<close>, \<open>u4\<close> are the values of the
  four calls of \<^verbatim>\<open>Math.random()\<close> in source order (doubles in \<open>[0, 1)\<close>; the fourth is
  drawn only when \<open>u3 > 0.7\<close>). The triple is \<^verbatim>\<open>(mockHR, mockTemp, mockSpO2)\<close>, the
  local variables of the effect (lines 145-147). Heart rate and oxygen are small integers,
  on which double arithmetic is exact; the product \<^verbatim>\<open>Math.random() * 5\<close>, the
  temperature walk and the literals \<^verbatim>\<open>0.2\<close>, \<^verbatim>\<open>0.1\<close>, \<^verbatim>\<open>37.3\<close> and \<^verbatim>\<open>0.7\<close> are
  rounded.
\<close>

definition mock_initial :: "int \<times> rat \<times> int" where
  "mock_initial = (75, 365 / 10, 98)"

definition mock_step :: "rat \<Rightarrow> rat \<Rightarrow> rat \<Rightarrow> rat \<Rightarrow> int \<times> rat \<times> int \<Rightarrow> int \<times> rat \<times> int" where
  "mock_step u1 u2 u3 u4 m = (case m of (mockHR, mockTemp, mockSpO2) \<Rightarrow>
     (let changeHR = \<lfloor>fl64 (u1 * 5)\<rfloor> - 2;
          mockHR = max 60 (min 110 (mockHR + changeHR));
          changeTemp = fl64 (fl64 (u2 * fl64 (2 / 10)) - fl64 (1 / 10));
          mockTemp = max 36 (min (fl64 (373 / 10)) (fl64 (mockTemp + changeTemp)));
          mockSpO2 = (if u3 > fl64 (7 / 10)
                      then (let changeSpO2 = (if u4 > 5 / 10 then 1 else - 1)
                            in max 95 (min 100 (mockSpO2 + changeSpO2)))
                      else mockSpO2)
      in (mockHR, mockTemp, mockSpO2)))"

text \<open>
  \<^verbatim>\<open>parseFloat(mockTemp.toFixed(1))\<close> (line 160): \<^verbatim>\<open>toFixed(1)\<close> prints the integer
  \<open>n\<close> for which \<open>n / 10\<close> is nearest to the exact value of the double, the larger one
  on a tie, with one fractional digit; \<^verbatim>\<open>parseFloat\<close> reads that text back, and the
  number read is represented by the value \<open>n / 10\<close> of the text.
\<close>

definition toFixed1 :: "rat \<Rightarrow> rat" where
  "toFixed1 x = of_int \<lfloor>10 * x + 1 / 2\<rfloor> / 10"

definition demoTick :: "string \<Rightarrow> int \<times> rat \<times> int \<Rightarrow> app_state \<Rightarrow> app_state" where
  "demoTick now m s = (case m of (mockHR, mockTemp, mockSpO2) \<Rightarrow>
     updateData now (Num (of_int mockHR)) (Num (toFixed1 mockTemp)) (Num (of_int mockSpO2)) s)"

section \<open>Connection and the event loop\<close>

text \<open>
  A thrown value: the name and the message of the error object.
  \<^verbatim>\<open>Error.prototype.toString\<close> joins them with a colon unless one of them is empty.
\<close>

datatype js_error = JsError (err_name: string) (err_message: string)

definition err_toString :: "js_error \<Rightarrow> string" where
  "err_toString e =
     (if err_name e = [] then err_message e
      else if err_message e = [] then err_name e
      else err_name e @ '': '' @ err_message e)"

text \<open>\<^verbatim>\<open>hay.includes(needle)\<close>.\<close>

fun js_includes :: "string \<Rightarrow> string \<Rightarrow> bool" where
  "js_includes [] needle = (needle = [])"
| "js_includes (c # cs) needle =
     (take (length needle) (c # cs) = needle \<or> js_includes cs needle)"

text \<open>
  The error thrown at line 66 when the browser has no Web Bluetooth. Its message is a
  non-ASCII literal; the model uses an ASCII rendering of it (like the literal, it does not
  contain the text \<^verbatim>\<open>permissions policy\<close>).
\<close>

definition unsupported_error :: js_error where
  "unsupported_error = JsError ''Error'' ''Web Bluetooth API unsupported''"

text \<open>
  How far one call of \<^verbatim>\<open>connectBluetooth\<close> gets (lines 63-100); the string is the name of
  the device the user picked:
  \<open>NoBluetooth\<close>: \<^verbatim>\<open>navigator.bluetooth\<close> is missing (line 66);
  \<open>RequestFails\<close>: \<^verbatim>\<open>requestDevice\<close> rejects (line 69);
  \<open>ConnectFails\<close>: \<^verbatim>\<open>gatt.connect\<close> rejects (line 77);
  \<open>SetupFails\<close>: \<^verbatim>\<open>getPrimaryService\<close>, \<^verbatim>\<open>getCharacteristic\<close> or
  \<^verbatim>\<open>startNotifications\<close> rejects (lines 80-83);
  \<open>Paired\<close>: every step succeeds.
\<close>

datatype connect_result =
  NoBluetooth
| RequestFails js_error
| ConnectFails string js_error
| SetupFails string js_error
| Paired string

text \<open>The \<^verbatim>\<open>catch\<close> block (lines 92-99).\<close>

definition connect_failed :: "js_error \<Rightarrow> app_state \<Rightarrow> app_state" where
  "connect_failed e s =
     (if js_includes (err_toString e) ''permissions policy''
      then s\<lparr>errorMsg := Some ErrPermission\<rparr>
      else s\<lparr>errorMsg := Some (ErrConnectFailed (err_message e))\<rparr>)"

text \<open>
  The state of the running page: the React state, the render captured by the notification
  listener that line 86 registered (if any), and the local variables of the demo effect.
\<close>

record system =
  ui :: app_state
  listener :: "app_state option"
  mock :: "int \<times> rat \<times> int"

definition initial_system :: system where
  "initial_system = \<lparr>ui = initial_state, listener = None, mock = mock_initial\<rparr>"

text \<open>
  \<^verbatim>\<open>connectBluetooth\<close> (lines 63-100), run to its end as one step. \<open>clk i\<close> is the clock
  text of the \<open>i\<close>-th call of \<^verbatim>\<open>addLog\<close>. The function is the closure of the render in
  which the button was clicked, so the listener it registers at line 86 is that render's
  \<^verbatim>\<open>handleCharacteristicValueChanged\<close>: the listener keeps the state \<open>ui sys\<close> of the
  click. Later renders build new handler functions, which are never registered.
\<close>

definition connectBluetooth :: "connect_result \<Rightarrow> (nat \<Rightarrow> string) \<Rightarrow> system \<Rightarrow> system" where
  "connectBluetooth res clk sys =
     (let s0 = (ui sys)\<lparr>errorMsg := None\<rparr>;
          s1 = addLog (clk 0) LogSearching s0;
          s2 = (\<lambda>n. (addLog (clk 1) (LogDevice n) s1)\<lparr>device := Some n\<rparr>);
          s3 = (\<lambda>n. addLog (clk 2) LogConnected (s2 n));
          s4 = (\<lambda>n. addLog (clk 3) LogListening (s3 n))
      in case res of
           NoBluetooth \<Rightarrow> sys\<lparr>ui := connect_failed unsupported_error s0\<rparr>
         | RequestFails e \<Rightarrow> sys\<lparr>ui := connect_failed e s1\<rparr>
         | ConnectFails n e \<Rightarrow> sys\<lparr>ui := connect_failed e (s2 n)\<rparr>
         | SetupFails n e \<Rightarrow> sys\<lparr>ui := connect_failed e (s3 n)\<rparr>
         | Paired n \<Rightarrow>
             sys\<lparr>ui := (s4 n)\<lparr>isConnected := True, isDemoMode := False\<rparr>,
                 listener := Some (ui sys)\<rparr>)"

text \<open>\<^verbatim>\<open>onDisconnected\<close> (lines 106-110).\<close>

definition onDisconnected :: "string \<Rightarrow> app_state \<Rightarrow> app_state" where
  "onDisconnected now s = (addLog now LogDisconnected s)\<lparr>isConnected := False, device := None\<rparr>"

text \<open>
  \<^verbatim>\<open>disconnectBluetooth\<close> (lines 102-104): with a device whose GATT server is connected
  (it is whenever \<^verbatim>\<open>isConnected\<close> holds) the call of \<^verbatim>\<open>disconnect()\<close> fires the
  \<^verbatim>\<open>gattserverdisconnected\<close> listener of line 87.
\<close>

definition disconnectBluetooth :: "string \<Rightarrow> app_state \<Rightarrow> app_state" where
  "disconnectBluetooth now s = (if device s \<noteq> None then onDisconnected now s else s)"

text \<open>
  The demo button (line 235) and the effect that depends on \<^verbatim>\<open>isDemoMode\<close>
  (lines 141-173): when the flag becomes true the effect writes a log line and starts a timer
  over fresh local variables; when it becomes false the timer is cleared.
\<close>

definition toggleDemo :: "string \<Rightarrow> system \<Rightarrow> system" where
  "toggleDemo now sys =
     (let s = (ui sys)\<lparr>isDemoMode := \<not> isDemoMode (ui sys)\<rparr>
      in if isDemoMode s then sys\<lparr>ui := addLog now LogDemo s, mock := mock_initial\<rparr>
         else sys\<lparr>ui := s\<rparr>)"

text \<open>
  The events of the page. A click counts only while its button is shown and enabled: the
  connect button while neither \<^verbatim>\<open>isConnected\<close> nor \<^verbatim>\<open>isDemoMode\<close> holds (lines
  226-227), the disconnect button while \<^verbatim>\<open>isConnected\<close> holds (lines 230-231), the demo
  button always (line 235). A notification reaches the registered listener while the device
  is connected; the timer ticks while demo mode is on.
\<close>

datatype event =
  ClickConnect connect_result "nat \<Rightarrow> string"
| ClickDisconnect string
| ClickDemo string
| Notification string string
| Tick string rat rat rat rat

fun step :: "event \<Rightarrow> system \<Rightarrow> system" where
  "step (ClickConnect res clk) sys =
     (if \<not> isConnected (ui sys) \<and> \<not> isDemoMode (ui sys) then connectBluetooth res clk sys
      else sys)"
| "step (ClickDisconnect now) sys =
     (if isConnected (ui sys) then sys\<lparr>ui := disconnectBluetooth now (ui sys)\<rparr> else sys)"
| "step (ClickDemo now) sys = toggleDemo now sys"
| "step (Notification now payload) sys =
     (case listener sys of
        Some r \<Rightarrow>
          if isConnected (ui sys)
          then sys\<lparr>ui := handleCharacteristicValueChanged r now payload (ui sys)\<rparr>
          else sys
      | None \<Rightarrow> sys)"
| "step (Tick now u1 u2 u3 u4) sys =
     (if isDemoMode (ui sys)
      then (let m = mock_step u1 u2 u3 u4 (mock sys)
            in sys\<lparr>ui := demoTick now m (ui sys), mock := m\<rparr>)
      else sys)"

fun run :: "event list \<Rightarrow> system \<Rightarrow> system" where
  "run [] sys = sys"
| "run (e # es) sys = run es (step e sys)"

section \<open>Example inputs\<close>

text \<open>A numbered reading, used to run the window on concrete sequences.\<close>

definition sample_reading :: "nat \<Rightarrow> reading" where
  "sample_reading i = (''12:00:00'', Num (of_nat (60 + i)), Num (365 / 10), Num 98)"

section \<open>Stating the claims\<close>

text \<open>
  The three value displays (lines 263, 272 and 281 render \<^verbatim>\<open>currentHR\<close>,
  \<^verbatim>\<open>currentTemp\<close> and \<^verbatim>\<open>currentSpO2\<close>) show the fields of the newest sample of
  the window.
\<close>

definition shows_newest :: "app_state \<Rightarrow> bool" where
  "shows_newest s =
     (data s \<noteq> [] \<and> currentHR s = heartRate (last (data s)) \<and>
      currentTemp s = temperature (last (data s)) \<and> currentSpO2 s = oxygen (last (data s)))"


text \<open>The same, allowing for the empty window before the first sample.\<close>

definition tracking :: "app_state \<Rightarrow> bool" where
  "tracking s = (data s = [] \<or> shows_newest s)"


text \<open>The ranges the demo generator keeps its three variables in.\<close>

definition mock_in_range :: "int \<times> rat \<times> int \<Rightarrow> bool" where
  "mock_in_range m = (case m of (hr, t, ox) \<Rightarrow>
     60 \<le> hr \<and> hr \<le> 110 \<and> 36 \<le> t \<and> t \<le> fl64 (373 / 10) \<and> 95 \<le> ox \<and> ox \<le> 100)"

text \<open>
  The temperature pattern as the specification words it, \<^verbatim>\<open>T:<digits>[.<digits>]\<close>: a
  run of digits, then optionally a dot and another run of digits. It is stated beside the
  code's \<open>tempMatch\<close> to compare the two; the specification's patterns for \<^verbatim>\<open>H\<close> and
  \<^verbatim>\<open>O\<close> are the code's \<open>hrMatch\<close> and \<open>spo2Match\<close>.
\<close>

definition spec_temp_capture :: "string \<Rightarrow> string" where
  "spec_temp_capture cs =
     (let ip = takeWhile is_digit cs
      in case dropWhile is_digit cs of
           c # d # ds \<Rightarrow>
             if c = CHR ''.'' \<and> is_digit d then ip @ c # takeWhile is_digit (d # ds) else ip
         | _ \<Rightarrow> ip)"

fun spec_tempMatch :: "string \<Rightarrow> string option" where
  "spec_tempMatch (a # b # c # cs) =
     (if a = CHR ''T'' \<and> b = CHR '':'' \<and> is_digit c then Some (spec_temp_capture (c # cs))
      else spec_tempMatch (b # c # cs))"
| "spec_tempMatch _ = None"

text \<open>
  Clock readings for the four log lines of one connection attempt, and an error as a browser
  raises it when the GATT connection cannot be made.
\<close>

definition sample_clock :: "nat \<Rightarrow> string" where
  "sample_clock i = [''12:00:00'', ''12:00:04'', ''12:00:05'', ''12:00:06''] ! min i 3"

definition network_error :: js_error where
  "network_error = JsError ''NetworkError'' ''Connection attempt failed.''"


section \<open>The rolling window\<close>

lemma appendPoint_length:
  "length (appendPoint w p) = min MAX_DATA_POINTS (Suc (length w))"
  by (simp add: appendPoint_def Let_def MAX_DATA_POINTS_def)

lemma appendPoint_full:
  "length w = MAX_DATA_POINTS \<Longrightarrow> appendPoint w p = tl w @ [p]"
  by (cases w) (simp_all add: appendPoint_def Let_def MAX_DATA_POINTS_def)

lemma appendPoint_room:
  "length w < MAX_DATA_POINTS \<Longrightarrow> appendPoint w p = w @ [p]"
  by (simp add: appendPoint_def Let_def MAX_DATA_POINTS_def)

lemma appendPoint_last_n:
  assumes "w = drop (length h - MAX_DATA_POINTS) h"
  shows "appendPoint w p = drop (length (h @ [p]) - MAX_DATA_POINTS) (h @ [p])"
proof (cases "length h < MAX_DATA_POINTS")
  case True
  with assms show ?thesis
    by (simp add: appendPoint_def Let_def)
next
  case False
  then have ge: "MAX_DATA_POINTS \<le> length h"
    by simp
  have w: "length w = MAX_DATA_POINTS"
    using assms ge by simp
  have "appendPoint w p = drop 1 w @ [p]"
    using w by (simp add: appendPoint_def Let_def MAX_DATA_POINTS_def)
  also have "drop 1 w = drop (Suc (length h - MAX_DATA_POINTS)) h"
    using assms by simp
  finally have step: "appendPoint w p = drop (Suc (length h - MAX_DATA_POINTS)) h @ [p]" .
  have k: "Suc (length h - MAX_DATA_POINTS) - length h = 0"
    using ge by (simp add: MAX_DATA_POINTS_def)
  have e: "length (h @ [p]) - MAX_DATA_POINTS = Suc (length h - MAX_DATA_POINTS)"
    using ge by (simp add: Suc_diff_le)
  show ?thesis
    unfolding e step using k by (simp only: drop_append drop_0)
qed

lemma data_updateData:
  "data (updateData now hr temp spo2 s) = appendPoint (data s) (point_of (now, hr, temp, spo2))"
  by (simp add: updateData_def point_of_def)

lemma data_updateAll:
  "data s = drop (length h - MAX_DATA_POINTS) h \<Longrightarrow>
   data (updateAll rs s) =
     drop (length (h @ map point_of rs) - MAX_DATA_POINTS) (h @ map point_of rs)"
proof (induction rs arbitrary: s h)
  case Nil
  then show ?case by simp
next
  case (Cons r rs)
  obtain now hr temp spo2 where r: "r = (now, hr, temp, spo2)"
    by (cases r) auto
  let ?s = "updateData now hr temp spo2 s"
  have "data ?s = drop (length (h @ [point_of r]) - MAX_DATA_POINTS) (h @ [point_of r])"
    using Cons.prems appendPoint_last_n [of "data s" h "point_of r"]
    by (simp add: data_updateData r)
  from Cons.IH [OF this] show ?case
    by (simp add: r)
qed

lemma appendPoint_snoc:
  "appendPoint w p = drop (Suc (length w) - MAX_DATA_POINTS) w @ [p]"
  by (simp add: appendPoint_def Let_def MAX_DATA_POINTS_def)

lemma last_appendPoint: "last (appendPoint w p) = p"
  by (simp add: appendPoint_snoc)

lemma appendPoint_not_Nil: "appendPoint w p \<noteq> []"
  by (simp add: appendPoint_snoc)

section \<open>Properties of the pattern matcher\<close>

lemma match_field_Cons:
  "match_field k cls (a # t) =
     (if a = k \<and> (\<exists>c cs. t = CHR '':'' # c # cs \<and> cls c)
      then Some (takeWhile cls (tl t)) else match_field k cls t)"
proof (cases t)
  case Nil
  then show ?thesis by simp
next
  case (Cons b t')
  then show ?thesis by (cases t') auto
qed

lemma match_field_skip:
  "a \<noteq> k \<Longrightarrow> match_field k cls (a # t) = match_field k cls t"
  by (simp add: match_field_Cons)

lemma match_field_hit:
  assumes "a = k" "\<exists>c cs. t = CHR '':'' # c # cs \<and> cls c"
  shows "match_field k cls (a # t) = Some (takeWhile cls (tl t))"
  using assms by auto

lemma match_field_miss:
  assumes "\<not> (a = k \<and> (\<exists>c cs. t = CHR '':'' # c # cs \<and> cls c))"
  shows "match_field k cls (a # t) = match_field k cls t"
  using assms by (subst match_field_Cons) (simp only: if_False)

lemma takeWhile_append_stop:
  "\<forall>c\<in>set g. cls c \<Longrightarrow> rest = [] \<or> \<not> cls (hd rest) \<Longrightarrow> takeWhile cls (g @ rest) = g"
  by (cases rest) (auto simp: takeWhile_append2)

lemma takeWhile_append_none:
  "\<forall>c\<in>set ws. \<not> cls c \<Longrightarrow> takeWhile cls (xs @ ws) = takeWhile cls xs"
  by (induction xs) (auto simp: takeWhile_eq_Nil_iff)

lemma match_field_spaces:
  "\<forall>c\<in>set ws. is_space c \<Longrightarrow> \<not> is_space k \<Longrightarrow> match_field k cls ws = None"
proof (induction ws)
  case Nil
  then show ?case by simp
next
  case (Cons a ws)
  then have "a \<noteq> k" by auto
  with Cons show ?case by (simp add: match_field_skip)
qed

lemma colon_not_space: "\<not> is_space (CHR '':'')"
  by (simp add: is_space_def)

lemma match_field_append_spaces:
  assumes ws: "\<forall>c\<in>set ws. is_space c" and k: "\<not> is_space k"
    and cls: "\<And>c. cls c \<Longrightarrow> \<not> is_space c"
  shows "match_field k cls (u @ ws) = match_field k cls u"
proof (induction u)
  case Nil
  show ?case using ws k by (simp add: match_field_spaces)
next
  case (Cons a u)
  have nocls: "\<forall>c\<in>set ws. \<not> cls c"
    using ws cls by auto
  have start: "(\<exists>c cs. u @ ws = CHR '':'' # c # cs \<and> cls c) \<longleftrightarrow>
               (\<exists>c cs. u = CHR '':'' # c # cs \<and> cls c)"
  proof (cases u)
    case Nil
    then show ?thesis using ws colon_not_space by auto
  next
    case u1: (Cons b u')
    show ?thesis
    proof (cases u')
      case Nil
      then show ?thesis using u1 nocls by (cases ws) auto
    next
      case (Cons c u'')
      then show ?thesis using u1 by simp
    qed
  qed
  have capture: "takeWhile cls (tl (u @ ws)) = takeWhile cls (tl u)"
    if "\<exists>c cs. u = CHR '':'' # c # cs \<and> cls c"
    using that nocls by (auto simp: takeWhile_append_none)
  show ?case
  proof (cases "a = k \<and> (\<exists>c cs. u = CHR '':'' # c # cs \<and> cls c)")
    case True
    then have hit: "\<exists>c cs. u @ ws = CHR '':'' # c # cs \<and> cls c"
      using start by blast
    have "match_field k cls (a # u @ ws) = Some (takeWhile cls (tl (u @ ws)))"
      using True hit by (intro match_field_hit) blast+
    moreover have "match_field k cls (a # u) = Some (takeWhile cls (tl u))"
      using True by (intro match_field_hit) blast+
    ultimately show ?thesis
      using capture True by simp
  next
    case False
    then have miss: "\<not> (a = k \<and> (\<exists>c cs. u @ ws = CHR '':'' # c # cs \<and> cls c))"
      using start by blast
    show ?thesis
      using match_field_miss [OF miss] match_field_miss [OF False] Cons.IH by simp
  qed
qed

lemma match_field_trim:
  assumes k: "\<not> is_space k" and cls: "\<And>c. cls c \<Longrightarrow> \<not> is_space c"
  shows "match_field k cls (js_trim t) = match_field k cls t"
proof -
  have lead: "match_field k cls (dropWhile is_space t') = match_field k cls t'" for t'
  proof (induction t')
    case Nil
    show ?case by simp
  next
    case (Cons a t')
    show ?case
    proof (cases "is_space a")
      case True
      then have "a \<noteq> k" using k by auto
      with True Cons show ?thesis by (simp add: match_field_skip)
    next
      case False
      then show ?thesis by simp
    qed
  qed
  define t1 where "t1 = dropWhile is_space t"
  define ws where "ws = rev (takeWhile is_space (rev t1))"
  have split: "t1 = js_trim t @ ws"
  proof -
    have "rev (takeWhile is_space (rev t1) @ dropWhile is_space (rev t1)) = rev (rev t1)"
      by (simp only: takeWhile_dropWhile_id)
    then have "rev (dropWhile is_space (rev t1)) @ rev (takeWhile is_space (rev t1)) = t1"
      by (simp only: rev_append rev_rev_ident)
    then show ?thesis
      by (simp only: js_trim_def t1_def ws_def)
  qed
  have "\<forall>c\<in>set ws. is_space c"
    by (auto simp: ws_def dest: set_takeWhileD)
  then have "match_field k cls (js_trim t @ ws) = match_field k cls (js_trim t)"
    using k cls by (rule match_field_append_spaces)
  then show ?thesis
    using split lead [of t] by (simp add: t1_def)
qed

lemma digit_not_space: "is_digit c \<Longrightarrow> \<not> is_space c"
  by (auto simp: is_digit_def is_space_def)

lemma digit_or_dot_not_space: "is_digit_or_dot c \<Longrightarrow> \<not> is_space c"
  by (auto simp: is_digit_or_dot_def is_digit_def is_space_def)

lemma hrMatch_trim: "hrMatch (js_trim t) = hrMatch t"
  unfolding hrMatch_def by (rule match_field_trim) (simp add: is_space_def, rule digit_not_space)

lemma tempMatch_trim: "tempMatch (js_trim t) = tempMatch t"
  unfolding tempMatch_def
  by (rule match_field_trim) (simp add: is_space_def, rule digit_or_dot_not_space)

lemma spo2Match_trim: "spo2Match (js_trim t) = spo2Match t"
  unfolding spo2Match_def by (rule match_field_trim) (simp add: is_space_def, rule digit_not_space)

lemma match_field_first:
  assumes g: "g \<noteq> []" "\<forall>c\<in>set g. cls c" and rest: "rest = [] \<or> \<not> cls (hd rest)"
    and k: "k \<noteq> CHR '':''" "\<not> cls k"
  shows "match_field k cls pre = None \<Longrightarrow>
         match_field k cls (pre @ k # CHR '':'' # g @ rest) = Some g"
proof (induction pre)
  case Nil
  obtain c g' where "g = c # g'"
    using g(1) by (cases g) auto
  then show ?case
    using g(2) takeWhile_append_stop [OF g(2) rest] by (simp add: match_field_Cons)
next
  case (Cons a pre)
  let ?X = "k # CHR '':'' # g @ rest"
  have here: "\<not> (a = k \<and> (\<exists>c cs. pre = CHR '':'' # c # cs \<and> cls c))"
  proof
    assume "a = k \<and> (\<exists>c cs. pre = CHR '':'' # c # cs \<and> cls c)"
    then have "match_field k cls (a # pre) = Some (takeWhile cls (tl pre))"
      by (intro match_field_hit) blast+
    with Cons.prems show False by simp
  qed
  have later: "match_field k cls pre = None"
    using Cons.prems match_field_miss [OF here] by simp
  have same: "(\<exists>c cs. pre @ ?X = CHR '':'' # c # cs \<and> cls c) \<longleftrightarrow>
        (\<exists>c cs. pre = CHR '':'' # c # cs \<and> cls c)"
  proof (cases pre)
    case Nil
    then show ?thesis using k by auto
  next
    case p1: (Cons b pre')
    show ?thesis
    proof (cases pre')
      case Nil
      then show ?thesis using p1 k by auto
    next
      case (Cons c pre'')
      then show ?thesis using p1 by simp
    qed
  qed
  have miss: "\<not> (a = k \<and> (\<exists>c cs. pre @ ?X = CHR '':'' # c # cs \<and> cls c))"
    using here same by blast
  show ?case
    using match_field_miss [OF miss] Cons.IH [OF later] by simp
qed

section \<open>What each operation leaves unchanged\<close>

lemma handle_eq:
  "handleCharacteristicValueChanged r now payload s =
     (if hrMatch payload = None \<and> tempMatch payload = None \<and> spo2Match payload = None then s
      else updateData now
             (case hrMatch payload of Some g \<Rightarrow> parseInt g | None \<Rightarrow> currentHR r)
             (case tempMatch payload of Some g \<Rightarrow> parseFloat g | None \<Rightarrow> currentTemp r)
             (case spo2Match payload of Some g \<Rightarrow> parseInt g | None \<Rightarrow> currentSpO2 r) s)"
  by (simp add: handleCharacteristicValueChanged_def Let_def hrMatch_trim tempMatch_trim
      spo2Match_trim split: option.splits)

lemma last_data_updateData:
  "last (data (updateData now hr temp spo2 s)) =
     \<lparr>time = now, heartRate = hr, temperature = temp, oxygen = spo2\<rparr>"
  by (simp add: updateData_def last_appendPoint)

lemma connect_failed_frame:
  "data (connect_failed e s) = data s" "currentHR (connect_failed e s) = currentHR s"
  "currentTemp (connect_failed e s) = currentTemp s"
  "currentSpO2 (connect_failed e s) = currentSpO2 s"
  "isConnected (connect_failed e s) = isConnected s"
  "isDemoMode (connect_failed e s) = isDemoMode s"
  "device (connect_failed e s) = device s" "logs (connect_failed e s) = logs s"
  by (simp_all add: connect_failed_def)

lemma addLog_frame:
  "data (addLog now msg s) = data s" "currentHR (addLog now msg s) = currentHR s"
  "currentTemp (addLog now msg s) = currentTemp s"
  "currentSpO2 (addLog now msg s) = currentSpO2 s"
  "isConnected (addLog now msg s) = isConnected s"
  "isDemoMode (addLog now msg s) = isDemoMode s"
  "device (addLog now msg s) = device s" "errorMsg (addLog now msg s) = errorMsg s"
  by (simp_all add: addLog_def)

lemma connectBluetooth_values:
  "data (ui (connectBluetooth res clk sys)) = data (ui sys) \<and>
   currentHR (ui (connectBluetooth res clk sys)) = currentHR (ui sys) \<and>
   currentTemp (ui (connectBluetooth res clk sys)) = currentTemp (ui sys) \<and>
   currentSpO2 (ui (connectBluetooth res clk sys)) = currentSpO2 (ui sys)"
  by (cases res) (simp_all add: connectBluetooth_def Let_def connect_failed_frame addLog_frame)

lemma data_step_cases:
  "data (ui (step e sys)) = data (ui sys) \<or>
   (\<exists>p. data (ui (step e sys)) = appendPoint (data (ui sys)) p)"
proof (cases e)
  case (ClickConnect res clk)
  then show ?thesis
    using connectBluetooth_values [of res clk sys] by simp
next
  case (ClickDisconnect now)
  then show ?thesis
    by (simp add: disconnectBluetooth_def onDisconnected_def addLog_def)
next
  case (ClickDemo now)
  then show ?thesis
    by (simp add: toggleDemo_def Let_def addLog_def)
next
  case (Notification now payload)
  then show ?thesis
    by (auto simp: handle_eq data_updateData split: option.splits)
next
  case (Tick now u1 u2 u3 u4)
  then show ?thesis
    by (cases "mock_step u1 u2 u3 u4 (mock sys)")
      (auto simp: Let_def demoTick_def data_updateData)
qed

lemma length_data_step:
  "length (data (ui sys)) \<le> MAX_DATA_POINTS \<Longrightarrow>
   length (data (ui (step e sys))) \<le> MAX_DATA_POINTS"
  using data_step_cases [of e sys] by (auto simp: appendPoint_length)

lemma length_data_run:
  "length (data (ui sys)) \<le> MAX_DATA_POINTS \<Longrightarrow>
   length (data (ui (run es sys))) \<le> MAX_DATA_POINTS"
  by (induction es arbitrary: sys) (simp_all add: length_data_step)

lemma length_data_run_initial: "length (data (ui (run es initial_system))) \<le> 60"
  using length_data_run [of initial_system es]
  by (simp add: initial_system_def initial_state_def MAX_DATA_POINTS_def)

lemma length_data_updateAll:
  "length (data s) \<le> MAX_DATA_POINTS \<Longrightarrow> length (data (updateAll rs s)) \<le> MAX_DATA_POINTS"
proof (induction rs arbitrary: s)
  case Nil
  then show ?case by simp
next
  case (Cons r rs)
  obtain now hr temp spo2 where r: "r = (now, hr, temp, spo2)"
    by (cases r) auto
  have "length (data (updateData now hr temp spo2 s)) \<le> MAX_DATA_POINTS"
    by (simp add: data_updateData appendPoint_length)
  from Cons.IH [OF this] show ?case
    by (simp add: r)
qed

lemma data_updateAll_initial:
  "data (updateAll rs initial_state) =
     drop (length rs - MAX_DATA_POINTS) (map point_of rs)"
  using data_updateAll [of initial_state "[]" rs] by (simp add: initial_state_def)

section \<open>Claims about the rolling window\<close>

text \<open>
  C1. The window is bounded at 60 with strict FIFO eviction. For every sequence \<open>rs\<close> of
  calls of \<^verbatim>\<open>updateData\<close> from the initial state the window holds at most 60 samples,
  namely the last 60 of the samples appended, in order. One call on a window of at most 60
  samples leaves at most 60; it appends the new sample and removes exactly the oldest one
  when the window was full (60 samples), and nothing otherwise. After 61 calls the window
  has 60 samples and its first one is the second sample appended. Every other operation of
  the page leaves the window alone, so it holds at most 60 samples in every state the page
  reaches.
\<close>

theorem window_bounded_fifo:
  "length (data (updateAll rs initial_state)) \<le> 60 \<and>
   data (updateAll rs initial_state) = drop (length rs - 60) (map point_of rs) \<and>
   (length (data s) \<le> 60 \<longrightarrow>
      length (data (updateAll rs s)) \<le> 60 \<and>
      length (data (updateData now hr temp spo2 s)) \<le> 60 \<and>
      data (updateData now hr temp spo2 s) =
        (if length (data s) = 60 then tl (data s) else data s) @
        [\<lparr>time = now, heartRate = hr, temperature = temp, oxygen = spo2\<rparr>]) \<and>
   (length rs = 61 \<longrightarrow>
      length (data (updateAll rs initial_state)) = 60 \<and>
      hd (data (updateAll rs initial_state)) = point_of (rs ! 1)) \<and>
   length (data (ui (run es initial_system))) \<le> 60"
proof -
  have all: "data (updateAll rs initial_state) = drop (length rs - 60) (map point_of rs)"
    using data_updateAll_initial [of rs] by (simp add: MAX_DATA_POINTS_def)
  have bound: "length (data (updateAll rs initial_state)) \<le> 60"
    unfolding all by simp
  have one: "length (data (updateAll rs s)) \<le> 60 \<and>
      length (data (updateData now hr temp spo2 s)) \<le> 60 \<and>
      data (updateData now hr temp spo2 s) =
        (if length (data s) = 60 then tl (data s) else data s) @
        [\<lparr>time = now, heartRate = hr, temperature = temp, oxygen = spo2\<rparr>]"
    if le: "length (data s) \<le> 60"
  proof (intro conjI)
    show "length (data (updateAll rs s)) \<le> 60"
      using length_data_updateAll [of s rs] le by (simp add: MAX_DATA_POINTS_def)
    show "length (data (updateData now hr temp spo2 s)) \<le> 60"
      by (simp add: data_updateData appendPoint_length MAX_DATA_POINTS_def)
    show "data (updateData now hr temp spo2 s) =
        (if length (data s) = 60 then tl (data s) else data s) @
        [\<lparr>time = now, heartRate = hr, temperature = temp, oxygen = spo2\<rparr>]"
    proof (cases "length (data s) = 60")
      case True
      then show ?thesis
        using appendPoint_full [of "data s"]
        by (simp add: data_updateData point_of_def MAX_DATA_POINTS_def)
    next
      case False
      with le have "length (data s) < MAX_DATA_POINTS"
        by (simp add: MAX_DATA_POINTS_def)
      then show ?thesis
        using False appendPoint_room [of "data s"] by (simp add: data_updateData point_of_def)
    qed
  qed
  have sixty_one: "length (data (updateAll rs initial_state)) = 60 \<and>
      hd (data (updateAll rs initial_state)) = point_of (rs ! 1)"
    if len: "length rs = 61"
  proof -
    have "drop 1 (map point_of rs) \<noteq> []"
      using len by simp
    then have "hd (drop 1 (map point_of rs)) = map point_of rs ! 1"
      using len by (simp add: hd_drop_conv_nth)
    then show ?thesis
      unfolding all using len by simp
  qed
  from all bound one sixty_one length_data_run_initial [of es] show ?thesis
    by blast
qed

text \<open>
  The instance of C1 for the readings numbered 0 to 60: the first sample of the window after
  61 appends is reading 1, and a further append to the full window of readings 0 to 59
  leaves readings 1 to 59 followed by the new sample.
\<close>

theorem window_bounded_fifo_witness:
  "length (map sample_reading [0..<61]) = 61 \<and>
   length (data (updateAll (map sample_reading [0..<61]) initial_state)) = 60 \<and>
   hd (data (updateAll (map sample_reading [0..<61]) initial_state)) =
     \<lparr>time = ''12:00:00'', heartRate = Num 61, temperature = Num (365 / 10), oxygen = Num 98\<rparr> \<and>
   length (data (updateAll (map sample_reading [0..<60]) initial_state)) \<le> 60 \<and>
   data (updateData ''12:01:00'' (Num 82) (Num (369 / 10)) (Num 97)
           (updateAll (map sample_reading [0..<60]) initial_state)) =
     map (point_of \<circ> sample_reading) [1..<60] @
     [\<lparr>time = ''12:01:00'', heartRate = Num 82, temperature = Num (369 / 10), oxygen = Num 97\<rparr>]"
proof -
  let ?rs = "map sample_reading [0..<61]"
  let ?s = "updateAll (map sample_reading [0..<60]) initial_state"
  have full: "data ?s = map (point_of \<circ> sample_reading) [0..<60]"
    using window_bounded_fifo [of "map sample_reading [0..<60]" initial_state "''''" NaN NaN NaN]
    by simp
  have tl: "tl (map (point_of \<circ> sample_reading) [0..<60]) = map (point_of \<circ> sample_reading) [1..<60]"
    by (simp add: upt_conv_Cons)
  note w = window_bounded_fifo [of ?rs ?s "''12:01:00''" "Num 82" "Num (369 / 10)" "Num 97"]
  have a: "length ?rs = 61" by simp
  have b: "length (data ?s) \<le> 60" by (simp add: full)
  from w a have c: "length (data (updateAll ?rs initial_state)) = 60"
    and d: "hd (data (updateAll ?rs initial_state)) = point_of (?rs ! 1)"
    by blast+
  from w b have e: "data (updateData ''12:01:00'' (Num 82) (Num (369 / 10)) (Num 97) ?s) =
        (if length (data ?s) = 60 then tl (data ?s) else data ?s) @
        [\<lparr>time = ''12:01:00'', heartRate = Num 82, temperature = Num (369 / 10), oxygen = Num 97\<rparr>]"
    by blast
  have f: "point_of (?rs ! 1) =
     \<lparr>time = ''12:00:00'', heartRate = Num 61, temperature = Num (365 / 10), oxygen = Num 98\<rparr>"
    by (simp add: point_of_def sample_reading_def)
  show ?thesis
    using a b c d e f by (simp add: full tl)
qed


section \<open>Claims about the payload parser\<close>

lemma shows_newest_updateData: "shows_newest (updateData now hr temp spo2 s)"
  by (simp add: shows_newest_def last_data_updateData)
    (simp add: updateData_def appendPoint_not_Nil)

lemmas char_class_defs = is_digit_def is_digit_or_dot_def
lemmas match_defs = hrMatch_def tempMatch_def spo2Match_def
lemmas parse_defs = parseInt_def parseFloat_def decimal_def digit_val_def Let_def

lemma full_payload_hr: "hrMatch ''H:82,T:36.9,O:97'' = Some ''82''"
  by (simp add: match_defs char_class_defs)
lemma full_payload_temp: "tempMatch ''H:82,T:36.9,O:97'' = Some ''36.9''"
  by (simp add: match_defs char_class_defs)
lemma full_payload_spo2: "spo2Match ''H:82,T:36.9,O:97'' = Some ''97''"
  by (simp add: match_defs char_class_defs)
lemma full_payload_numbers:
  "parseInt ''82'' = Num 82" "parseInt ''97'' = Num 97" "parseFloat ''36.9'' = Num (369 / 10)"
  by (simp_all add: parse_defs char_class_defs)

text \<open>
  C8. Processing the payload \<^verbatim>\<open>H:82,T:36.9,O:97\<close> appends the sample with heart rate 82,
  temperature 36.9 and oxygen 97, whatever the state \<open>s\<close> before and whatever render
  \<open>r\<close> the handler closes over: all three fields are present, so no value is carried
  forward.
\<close>

theorem full_payload_sample:
  "handleCharacteristicValueChanged r now ''H:82,T:36.9,O:97'' s =
     updateData now (Num 82) (Num (369 / 10)) (Num 97) s \<and>
   last (data (handleCharacteristicValueChanged r now ''H:82,T:36.9,O:97'' s)) =
     \<lparr>time = now, heartRate = Num 82, temperature = Num (369 / 10), oxygen = Num 97\<rparr>"
  by (simp add: handle_eq full_payload_hr full_payload_temp full_payload_spo2
      full_payload_numbers last_data_updateData)

text \<open>
  With the code's own three patterns a payload without a match is ignored: the handler
  returns the state as it was and the notification leaves the page unchanged.
\<close>

lemma handler_ignores_unmatched:
  "hrMatch payload = None \<and> tempMatch payload = None \<and> spo2Match payload = None \<longrightarrow>
   handleCharacteristicValueChanged r now payload s = s \<and>
   step (Notification now payload) sys = sys"
  by (simp add: handle_eq split: option.splits)

text \<open>
  C6 states that a payload matching none of the three patterns \<^verbatim>\<open>H:<digits>\<close>,
  \<^verbatim>\<open>T:<digits>[.<digits>]\<close>, \<^verbatim>\<open>O:<digits>\<close> has no observable effect. The code's
  temperature pattern \<^verbatim>\<open>T:([\d.]+)\<close> is wider than \<^verbatim>\<open>T:<digits>[.<digits>]\<close>: the
  payloads \<^verbatim>\<open>T:.\<close> and \<^verbatim>\<open>T:.5\<close> match none of the three patterns, yet the handler calls
  \<^verbatim>\<open>updateData\<close> for them, with the temperature \<open>NaN\<close> and \<open>0.5\<close>. From the initial
  state \<^verbatim>\<open>T:.\<close> appends a sample to the empty window. On a well-formed payload the two
  temperature patterns capture the same text.
\<close>

theorem dots_payload_appends:
  "hrMatch ''T:.'' = None \<and> spec_tempMatch ''T:.'' = None \<and> spo2Match ''T:.'' = None \<and>
   handleCharacteristicValueChanged r now ''T:.'' s =
     updateData now (currentHR r) NaN (currentSpO2 r) s \<and>
   data (handleCharacteristicValueChanged initial_state ''12:00:00'' ''T:.'' initial_state) =
     [\<lparr>time = ''12:00:00'', heartRate = Num 0, temperature = NaN, oxygen = Num 0\<rparr>] \<and>
   data initial_state = [] \<and>
   hrMatch ''T:.5'' = None \<and> spec_tempMatch ''T:.5'' = None \<and> spo2Match ''T:.5'' = None \<and>
   handleCharacteristicValueChanged r now ''T:.5'' s =
     updateData now (currentHR r) (Num (1 / 2)) (currentSpO2 r) s \<and>
   spec_tempMatch ''H:82,T:36.9,O:97'' = Some ''36.9'' \<and>
   tempMatch ''H:82,T:36.9,O:97'' = Some ''36.9''"
proof -
  have m: "hrMatch ''T:.'' = None" "spo2Match ''T:.'' = None" "tempMatch ''T:.'' = Some ''.''"
    "hrMatch ''T:.5'' = None" "spo2Match ''T:.5'' = None" "tempMatch ''T:.5'' = Some ''.5''"
    "tempMatch ''H:82,T:36.9,O:97'' = Some ''36.9''"
    by (simp_all add: match_defs char_class_defs)
  have sp: "spec_tempMatch ''T:.'' = None" "spec_tempMatch ''T:.5'' = None"
    "spec_tempMatch ''H:82,T:36.9,O:97'' = Some ''36.9''"
    by (simp_all add: spec_temp_capture_def char_class_defs)
  have p: "parseFloat ''.'' = NaN" "parseFloat ''.5'' = Num (1 / 2)"
    by (simp_all add: parse_defs char_class_defs)
  have h: "handleCharacteristicValueChanged r now ''T:.'' s =
     updateData now (currentHR r) NaN (currentSpO2 r) s"
    "handleCharacteristicValueChanged r now ''T:.5'' s =
     updateData now (currentHR r) (Num (1 / 2)) (currentSpO2 r) s" for r now s
    by (simp_all add: handle_eq m p)
  have d: "data (handleCharacteristicValueChanged initial_state ''12:00:00'' ''T:.'' initial_state) =
     [\<lparr>time = ''12:00:00'', heartRate = Num 0, temperature = NaN, oxygen = Num 0\<rparr>]"
    "data initial_state = []"
    by (simp_all add: h updateData_def appendPoint_def MAX_DATA_POINTS_def initial_state_def)
  from m sp h d show ?thesis
    by simp
qed

text \<open>
  C4 states that a matching temperature pattern always captures \<^verbatim>\<open>digits[.digits]\<close>
  and so never parses to \<open>NaN\<close>. The pattern of line 127 is \<^verbatim>\<open>T:([\d.]+)\<close>, any run
  of digits and dots: the payload \<^verbatim>\<open>T:.\<close> matches with the capture \<^verbatim>\<open>.\<close>, which
  \<^verbatim>\<open>parseFloat\<close> turns into \<open>NaN\<close>; that value is appended to the window and shown as
  the current temperature. The captures \<^verbatim>\<open>1.2.3\<close> and \<^verbatim>\<open>..5\<close> are further
  matches that do not have the shape \<^verbatim>\<open>digits[.digits]\<close>.
\<close>

theorem temperature_capture_malformed:
  "tempMatch ''T:.'' = Some ''.'' \<and> parseFloat ''.'' = NaN \<and>
   temperature (last (data (handleCharacteristicValueChanged r now ''T:.'' s))) = NaN \<and>
   currentTemp (handleCharacteristicValueChanged r now ''T:.'' s) = NaN \<and>
   tempMatch ''T:1.2.3'' = Some ''1.2.3'' \<and> tempMatch ''T:..5'' = Some ''..5'' \<and>
   parseFloat ''..5'' = NaN"
proof -
  have a: "tempMatch ''T:.'' = Some ''.''" "hrMatch ''T:.'' = None" "spo2Match ''T:.'' = None"
    "tempMatch ''T:1.2.3'' = Some ''1.2.3''" "tempMatch ''T:..5'' = Some ''..5''"
    by (simp_all add: match_defs char_class_defs)
  have b: "parseFloat ''.'' = NaN" "parseFloat ''..5'' = NaN"
    by (simp_all add: parse_defs char_class_defs)
  show ?thesis
    by (simp add: handle_eq a b last_data_updateData) (simp add: updateData_def)
qed


lemma key_not_class:
  "\<not> is_digit (CHR ''H'')" "\<not> is_digit_or_dot (CHR ''T'')" "\<not> is_digit (CHR ''O'')"
  by (simp_all add: char_class_defs)

lemma hrMatch_first:
  assumes "g \<noteq> []" "\<forall>c\<in>set g. is_digit c" "rest = [] \<or> \<not> is_digit (hd rest)"
    "hrMatch pre = None"
  shows "hrMatch (pre @ ''H:'' @ g @ rest) = Some g"
  using match_field_first [of g is_digit rest "CHR ''H''" pre] assms
  by (simp add: hrMatch_def key_not_class)

lemma tempMatch_first:
  assumes "g \<noteq> []" "\<forall>c\<in>set g. is_digit_or_dot c" "rest = [] \<or> \<not> is_digit_or_dot (hd rest)"
    "tempMatch pre = None"
  shows "tempMatch (pre @ ''T:'' @ g @ rest) = Some g"
  using match_field_first [of g is_digit_or_dot rest "CHR ''T''" pre] assms
  by (simp add: tempMatch_def key_not_class)

lemma spo2Match_first:
  assumes "g \<noteq> []" "\<forall>c\<in>set g. is_digit c" "rest = [] \<or> \<not> is_digit (hd rest)"
    "spo2Match pre = None"
  shows "spo2Match (pre @ ''O:'' @ g @ rest) = Some g"
  using match_field_first [of g is_digit rest "CHR ''O''" pre] assms
  by (simp add: spo2Match_def key_not_class)

text \<open>
  C9. The first occurrence of a field wins. Let the payload be \<open>pre\<close>, then the key and
  a colon, then a non-empty run \<open>g\<close> of class characters (digits; for \<^verbatim>\<open>T\<close> digits and
  dots) that ends where \<open>rest\<close> begins, with no match of that field inside \<open>pre\<close>.
  Then the pattern captures \<open>g\<close> and the appended sample carries the number parsed from
  \<open>g\<close>, whatever \<open>rest\<close> holds, later occurrences of the same field included. This
  holds for \<^verbatim>\<open>H\<close>, \<^verbatim>\<open>T\<close> and \<^verbatim>\<open>O\<close> independently.
\<close>

theorem first_occurrence_wins:
  "(g1 \<noteq> [] \<and> (\<forall>c\<in>set g1. is_digit c) \<and> (rest1 = [] \<or> \<not> is_digit (hd rest1)) \<and>
      hrMatch pre1 = None \<longrightarrow>
    hrMatch (pre1 @ ''H:'' @ g1 @ rest1) = Some g1 \<and>
    heartRate (last (data (handleCharacteristicValueChanged r now (pre1 @ ''H:'' @ g1 @ rest1) s)))
      = parseInt g1) \<and>
   (g2 \<noteq> [] \<and> (\<forall>c\<in>set g2. is_digit_or_dot c) \<and>
      (rest2 = [] \<or> \<not> is_digit_or_dot (hd rest2)) \<and> tempMatch pre2 = None \<longrightarrow>
    tempMatch (pre2 @ ''T:'' @ g2 @ rest2) = Some g2 \<and>
    temperature (last (data (handleCharacteristicValueChanged r now (pre2 @ ''T:'' @ g2 @ rest2) s)))
      = parseFloat g2) \<and>
   (g3 \<noteq> [] \<and> (\<forall>c\<in>set g3. is_digit c) \<and> (rest3 = [] \<or> \<not> is_digit (hd rest3)) \<and>
      spo2Match pre3 = None \<longrightarrow>
    spo2Match (pre3 @ ''O:'' @ g3 @ rest3) = Some g3 \<and>
    oxygen (last (data (handleCharacteristicValueChanged r now (pre3 @ ''O:'' @ g3 @ rest3) s)))
      = parseInt g3)"
proof (intro conjI impI)
  assume h: "g1 \<noteq> [] \<and> (\<forall>c\<in>set g1. is_digit c) \<and> (rest1 = [] \<or> \<not> is_digit (hd rest1)) \<and>
      hrMatch pre1 = None"
  then show m: "hrMatch (pre1 @ ''H:'' @ g1 @ rest1) = Some g1"
    by (intro hrMatch_first) blast+
  show "heartRate (last (data (handleCharacteristicValueChanged r now (pre1 @ ''H:'' @ g1 @ rest1) s)))
      = parseInt g1"
    by (simp only: handle_eq m) (simp add: last_data_updateData)
next
  assume h: "g2 \<noteq> [] \<and> (\<forall>c\<in>set g2. is_digit_or_dot c) \<and>
      (rest2 = [] \<or> \<not> is_digit_or_dot (hd rest2)) \<and> tempMatch pre2 = None"
  then show m: "tempMatch (pre2 @ ''T:'' @ g2 @ rest2) = Some g2"
    by (intro tempMatch_first) blast+
  show "temperature (last (data (handleCharacteristicValueChanged r now (pre2 @ ''T:'' @ g2 @ rest2) s)))
      = parseFloat g2"
    by (simp only: handle_eq m) (simp add: last_data_updateData)
next
  assume h: "g3 \<noteq> [] \<and> (\<forall>c\<in>set g3. is_digit c) \<and> (rest3 = [] \<or> \<not> is_digit (hd rest3)) \<and>
      spo2Match pre3 = None"
  then show m: "spo2Match (pre3 @ ''O:'' @ g3 @ rest3) = Some g3"
    by (intro spo2Match_first) blast+
  show "oxygen (last (data (handleCharacteristicValueChanged r now (pre3 @ ''O:'' @ g3 @ rest3) s)))
      = parseInt g3"
    by (simp only: handle_eq m) (simp add: last_data_updateData)
qed

text \<open>
  The instances of C9 for \<^verbatim>\<open>H:70,H:200\<close>, \<^verbatim>\<open>H:70,T:36.5,T:99.9\<close> and
  \<^verbatim>\<open>O:97 O:12\<close>.
\<close>

theorem first_occurrence_wins_witness:
  "hrMatch ''H:70,H:200'' = Some ''70'' \<and>
   heartRate (last (data (handleCharacteristicValueChanged initial_state ''12:00:00''
      ''H:70,H:200'' initial_state))) = Num 70 \<and>
   tempMatch ''H:70,T:36.5,T:99.9'' = Some ''36.5'' \<and>
   temperature (last (data (handleCharacteristicValueChanged initial_state ''12:00:00''
      ''H:70,T:36.5,T:99.9'' initial_state))) = Num (365 / 10) \<and>
   spo2Match ''O:97 O:12'' = Some ''97'' \<and>
   oxygen (last (data (handleCharacteristicValueChanged initial_state ''12:00:00''
      ''O:97 O:12'' initial_state))) = Num 97"
proof -
  have h1: "''70'' \<noteq> [] \<and> (\<forall>c\<in>set ''70''. is_digit c) \<and>
      ('',H:200'' = [] \<or> \<not> is_digit (hd '',H:200'')) \<and> hrMatch [] = None"
    by (simp add: match_defs char_class_defs)
  have h2: "''36.5'' \<noteq> [] \<and> (\<forall>c\<in>set ''36.5''. is_digit_or_dot c) \<and>
      ('',T:99.9'' = [] \<or> \<not> is_digit_or_dot (hd '',T:99.9'')) \<and> tempMatch ''H:70,'' = None"
    by (simp add: match_defs char_class_defs)
  have h3: "''97'' \<noteq> [] \<and> (\<forall>c\<in>set ''97''. is_digit c) \<and>
      ('' O:12'' = [] \<or> \<not> is_digit (hd '' O:12'')) \<and> spo2Match [] = None"
    by (simp add: match_defs char_class_defs)
  have p: "parseInt ''70'' = Num 70" "parseFloat ''36.5'' = Num (365 / 10)"
    "parseInt ''97'' = Num 97"
    by (simp_all add: parse_defs char_class_defs)
  from first_occurrence_wins [of "''70''" "'',H:200''" "[]" initial_state "''12:00:00''"
      initial_state "''36.5''" "'',T:99.9''" "''H:70,''" "''97''" "'' O:12''" "[]"] h1 h2 h3
  show ?thesis
    by (simp add: p)
qed

section \<open>Claims about the displayed values\<close>

lemma shows_newest_cong:
  "data s' = data s \<Longrightarrow> currentHR s' = currentHR s \<Longrightarrow> currentTemp s' = currentTemp s \<Longrightarrow>
   currentSpO2 s' = currentSpO2 s \<Longrightarrow> shows_newest s' = shows_newest s"
  by (simp add: shows_newest_def)

lemma shows_newest_handle:
  "hrMatch payload \<noteq> None \<or> tempMatch payload \<noteq> None \<or> spo2Match payload \<noteq> None \<Longrightarrow>
   shows_newest (handleCharacteristicValueChanged r now payload s)"
  by (auto simp add: handle_eq shows_newest_updateData)

lemma shows_newest_demoTick: "shows_newest (demoTick now m s)"
  by (cases m) (simp add: demoTick_def shows_newest_updateData)

lemma tracking_step: "tracking (ui sys) \<Longrightarrow> tracking (ui (step e sys))"
proof (cases e)
  case (ClickConnect res clk)
  assume "tracking (ui sys)"
  then show ?thesis
    using connectBluetooth_values [of res clk sys] shows_newest_cong [of "ui (connectBluetooth res clk sys)" "ui sys"]
    by (auto simp: ClickConnect tracking_def)
next
  case (ClickDisconnect now)
  assume "tracking (ui sys)"
  then show ?thesis
    by (auto simp: ClickDisconnect tracking_def shows_newest_def disconnectBluetooth_def
        onDisconnected_def addLog_def)
next
  case (ClickDemo now)
  assume "tracking (ui sys)"
  then show ?thesis
    by (auto simp: ClickDemo tracking_def shows_newest_def toggleDemo_def Let_def addLog_def)
next
  case (Notification now payload)
  assume "tracking (ui sys)"
  then show ?thesis
    by (auto simp: Notification tracking_def handle_eq shows_newest_updateData
        split: option.splits)
next
  case (Tick now u1 u2 u3 u4)
  assume "tracking (ui sys)"
  then show ?thesis
    by (auto simp: Tick tracking_def Let_def shows_newest_demoTick)
qed

lemma tracking_run: "tracking (ui sys) \<Longrightarrow> tracking (ui (run es sys))"
  by (induction es arbitrary: sys) (simp_all add: tracking_step)

text \<open>
  C10. The three displays track the newest sample. After every call of \<^verbatim>\<open>updateData\<close>,
  after every notification in which a pattern matches and after every tick of the demo
  timer, the window is not empty and \<^verbatim>\<open>currentHR\<close>, \<^verbatim>\<open>currentTemp\<close> and
  \<^verbatim>\<open>currentSpO2\<close> equal the fields of its last sample. So in every state the page
  reaches the window is still empty or the displays show its last sample.
\<close>

theorem displays_track_newest:
  "shows_newest (updateData now hr temp spo2 s) \<and>
   (hrMatch payload \<noteq> None \<or> tempMatch payload \<noteq> None \<or> spo2Match payload \<noteq> None \<longrightarrow>
      shows_newest (handleCharacteristicValueChanged r now payload s)) \<and>
   shows_newest (demoTick now m s) \<and>
   (data (ui (run es initial_system)) = [] \<or> shows_newest (ui (run es initial_system)))"
proof -
  have "tracking (ui initial_system)"
    by (simp add: tracking_def initial_system_def initial_state_def)
  then have "tracking (ui (run es initial_system))"
    by (rule tracking_run)
  then show ?thesis
    using shows_newest_updateData shows_newest_handle shows_newest_demoTick
    by (simp add: tracking_def)
qed

text \<open>The instance of C10 for the payload \<^verbatim>\<open>H:75\<close> in the initial state.\<close>

theorem displays_track_newest_witness:
  "hrMatch ''H:75'' \<noteq> None \<and>
   shows_newest (handleCharacteristicValueChanged initial_state ''12:00:00'' ''H:75'' initial_state) \<and>
   currentHR (handleCharacteristicValueChanged initial_state ''12:00:00'' ''H:75'' initial_state)
     = Num 75"
proof -
  have m: "hrMatch ''H:75'' = Some ''75''" "tempMatch ''H:75'' = None" "spo2Match ''H:75'' = None"
    by (simp_all add: match_defs char_class_defs)
  have p: "parseInt ''75'' = Num 75"
    by (simp add: parse_defs char_class_defs)
  have c: "currentHR (handleCharacteristicValueChanged initial_state ''12:00:00'' ''H:75'' initial_state)
     = Num 75"
    by (simp add: handle_eq m p updateData_def)
  from displays_track_newest [of "''12:00:00''" NaN NaN NaN initial_state "''H:75''" initial_state
      mock_initial "[]"] m(1) c
  show ?thesis by simp
qed


section \<open>Claims about the demo generator\<close>

subsection \<open>Rounding to binary64\<close>

lemma pow2_powi: "pow2 k = 2 powi k"
  by (simp add: pow2_def power_int_def power_inverse inverse_eq_divide power_one_over)

lemma pow2_pos: "0 < pow2 k"
  by (simp add: pow2_powi)

lemma pow2_add: "pow2 (a + b) = pow2 a * pow2 b"
  by (simp add: pow2_powi power_int_add)

lemma pow2_mono: "a \<le> b \<Longrightarrow> pow2 a \<le> pow2 b"
  by (simp add: pow2_powi power_int_increasing)

lemma pow2_less_exp: "pow2 a < pow2 b \<Longrightarrow> a < b"
  using pow2_mono [of b a] by (cases "a < b") auto

lemma pow2_nat: "0 \<le> k \<Longrightarrow> pow2 k = of_int (2 ^ nat k)"
  by (simp add: pow2_def)

lemma bit_length_bounds:
  "0 < n \<Longrightarrow> 1 \<le> bit_length n \<and> 2 ^ nat (bit_length n - 1) \<le> n \<and> n < 2 ^ nat (bit_length n)"
proof (induction n rule: bit_length.induct)
  case (1 n)
  have bl: "bit_length n = 1 + bit_length (n div 2)"
    using "1.prems" by (subst bit_length.simps) simp
  show ?case
  proof (cases "n div 2 = 0")
    case True
    then have "n = 1" using "1.prems" by presburger
    moreover have "bit_length (0::int) = 0"
      by (subst bit_length.simps) simp
    ultimately show ?thesis
      using bl by simp
  next
    case False
    then have pos: "0 < n div 2" using "1.prems" by presburger
    from "1.IH" [OF _ pos] "1.prems"
    have ih: "1 \<le> bit_length (n div 2)"
      "2 ^ nat (bit_length (n div 2) - 1) \<le> n div 2"
      "n div 2 < 2 ^ nat (bit_length (n div 2))"
      by simp_all
    define b where "b = nat (bit_length (n div 2) - 1)"
    have b: "nat (bit_length (n div 2)) = Suc b" "nat (bit_length n - 1) = Suc b"
      "nat (bit_length n) = Suc (Suc b)"
      using ih(1) bl by (simp_all add: b_def)
    have lo: "(2::int) ^ b \<le> n div 2" and hi: "n div 2 < 2 ^ Suc b"
      using ih(2,3) b by (simp_all add: b_def)
    have "2 * (n div 2) \<le> n" "n < 2 * (n div 2) + 2"
      by presburger+
    with lo hi have "2 ^ Suc b \<le> n" "n < 2 ^ Suc (Suc b)"
      by simp_all
    then show ?thesis
      using b bl ih(1) by simp
  qed
qed

lemma of_int_bit_length_bounds:
  assumes "0 < n"
  shows "pow2 (bit_length n - 1) \<le> of_int n" "of_int n < pow2 (bit_length n)"
proof -
  note b = bit_length_bounds [OF assms]
  have "pow2 (bit_length n - 1) = of_int (2 ^ nat (bit_length n - 1))"
    using b by (intro pow2_nat) simp
  also have "\<dots> \<le> of_int n"
    using b by (simp only: of_int_le_iff)
  finally show "pow2 (bit_length n - 1) \<le> of_int n" .
  have "(of_int n :: rat) < of_int (2 ^ nat (bit_length n))"
    using b by (simp only: of_int_less_iff)
  also have "\<dots> = pow2 (bit_length n)"
    using b by (intro pow2_nat [symmetric]) simp
  finally show "of_int n < pow2 (bit_length n)" .
qed

lemma binary_exponent_bounds:
  assumes "0 < a"
  shows "pow2 (binary_exponent a) \<le> a" "a < pow2 (binary_exponent a + 1)"
proof -
  obtain p q where pq: "quotient_of a = (p, q)"
    by (cases "quotient_of a") auto
  have q: "0 < q"
    using pq by (rule quotient_of_denom_pos)
  have a: "a = of_int p / of_int q"
    using pq by (rule quotient_of_div)
  have p: "0 < p"
    using assms q by (simp add: a zero_less_divide_iff)
  define k where "k = bit_length p - bit_length q"
  note bp = of_int_bit_length_bounds [OF p] and bq = of_int_bit_length_bounds [OF q]
  have qpos: "(0::rat) < of_int q" using q by simp
  have "a < pow2 (bit_length p) / pow2 (bit_length q - 1)"
    unfolding a using bp(2) bq(1) p pow2_pos [of "bit_length q - 1"]
    by (intro frac_less) simp_all
  also have "\<dots> = pow2 (k + 1)"
    using pow2_add [of "k + 1" "bit_length q - 1"] pow2_pos [of "bit_length q - 1"]
    by (simp add: k_def field_simps)
  finally have up: "a < pow2 (k + 1)" .
  have "pow2 (bit_length p - 1) / pow2 (bit_length q) < a"
    unfolding a using bp(1) bq(2) qpos pow2_pos [of "bit_length p - 1"]
    by (intro frac_less2) simp_all
  moreover have "pow2 (bit_length p - 1) / pow2 (bit_length q) = pow2 (k - 1)"
    using pow2_add [of "k - 1" "bit_length q"] pow2_pos [of "bit_length q"]
    by (simp add: k_def field_simps)
  ultimately have low: "pow2 (k - 1) < a" by simp
  have e: "binary_exponent a = (if pow2 k \<le> a then k else k - 1)"
    by (simp add: binary_exponent_def pq k_def Let_def)
  show "pow2 (binary_exponent a) \<le> a"
    using low by (simp add: e less_imp_le)
  show "a < pow2 (binary_exponent a + 1)"
    using up by (simp add: e not_le)
qed

lemma round_half_even_bounds:
  "of_int (round_half_even r) \<le> r + 1 / 2" "r - 1 / 2 \<le> of_int (round_half_even r)"
proof -
  define f where "f = \<lfloor>r\<rfloor>"
  define d where "d = r - of_int f"
  define m where "m = round_half_even r"
  have r: "r = of_int f + d"
    by (simp add: d_def)
  have d: "0 \<le> d" "d < 1"
    unfolding d_def f_def by linarith+
  have v: "m = (if d < 1 / 2 then f else if 1 / 2 < d then f + 1 else if even f then f else f + 1)"
    by (simp add: m_def round_half_even_def Let_def f_def d_def)
  consider "d < 1 / 2" "m = f" | "1 / 2 < d" "m = f + 1" | "d = 1 / 2" "m = f" | "d = 1 / 2" "m = f + 1"
    using v by (cases "d < 1 / 2"; cases "1 / 2 < d"; cases "even f") auto
  then have "of_int m \<le> r + 1 / 2 \<and> r - 1 / 2 \<le> of_int m"
    using d by cases (simp_all add: r)
  then show "of_int (round_half_even r) \<le> r + 1 / 2" "r - 1 / 2 \<le> of_int (round_half_even r)"
    by (simp_all add: m_def)
qed

lemma fl64_pos:
  assumes "0 < x"
  shows "fl64 x =
    of_int (round_half_even (x / pow2 (max (binary_exponent x - 52) (- 1074)))) *
    pow2 (max (binary_exponent x - 52) (- 1074))"
  using assms by (simp add: fl64_def Let_def)

lemma fl64_below_5:
  assumes "0 \<le> x" "x \<le> 5 - 5 / 2 ^ 53"
  shows "0 \<le> fl64 x" "fl64 x < 5"
proof -
  have "0 \<le> fl64 x \<and> fl64 x < 5"
  proof (cases "x = 0")
    case True
    then show ?thesis by (simp add: fl64_def)
  next
    case False
    with assms have pos: "0 < x" by simp
    define e where "e = binary_exponent x"
    define q where "q = max (e - 52) (- 1074)"
    define r where "r = x / pow2 q"
    define m where "m = round_half_even r"
    have v: "fl64 x = of_int m * pow2 q"
      using fl64_pos [OF pos] by (simp add: m_def r_def q_def e_def)
    note eb = binary_exponent_bounds [OF pos, folded e_def]
    have rpos: "0 \<le> r"
      using pos pow2_pos [of q] by (simp add: r_def)
    have "- (1 / 2) \<le> (of_int m :: rat)"
      using round_half_even_bounds(2) [of r] rpos by (simp add: m_def)
    then have "- 1 < (of_int m :: rat)" by simp
    then have "- 1 < m" by (metis of_int_less_iff of_int_minus of_int_1)
    then have m0: "0 \<le> m" by simp
    have lo: "0 \<le> fl64 x"
      using m0 pow2_pos [of q] by (simp add: v)
    have hi: "fl64 x < 5"
    proof (cases "x < 4")
      case True
      have "pow2 e < pow2 2"
        using eb(1) True by (simp add: pow2_def)
      then have "e < 2" by (rule pow2_less_exp)
      then have q: "q \<le> - 51" by (simp add: q_def)
      define n where "n = (2::int) ^ nat (2 - q)"
      have n: "of_int n = pow2 (2 - q)"
        using q by (simp add: n_def pow2_def)
      have four: "pow2 (2 - q) * pow2 q = 4"
        using pow2_add [of "2 - q" q] by (simp add: pow2_def)
      have "r < of_int n"
        using True pow2_pos [of q] four by (simp add: r_def n field_simps)
      then have "of_int m < (of_int n :: rat) + 1 / 2"
        using round_half_even_bounds(1) [of r] by (simp add: m_def)
      then have "(of_int m :: rat) < of_int (n + 1)" by simp
      then have "m < n + 1" by (simp only: of_int_less_iff)
      then have "(of_int m :: rat) \<le> of_int n" by simp
      then have "fl64 x \<le> pow2 (2 - q) * pow2 q"
        using pow2_pos [of q] by (simp add: v n)
      then show ?thesis by (simp add: four)
    next
      case False
      then have x4: "4 \<le> x" by simp
      have "pow2 e < pow2 3"
        using eb(1) assms(2) by (simp add: pow2_def)
      then have "e < 3" by (rule pow2_less_exp)
      moreover have "pow2 2 < pow2 (e + 1)"
        using eb(2) x4 by (simp add: pow2_def)
      then have "2 < e + 1" by (rule pow2_less_exp)
      ultimately have e: "e = 2" by simp
      have q: "q = - 50" by (simp add: q_def e)
      have u: "pow2 q = 1 / 2 ^ 50" by (simp add: q pow2_def)
      have "r \<le> 5 * 2 ^ 50 - 5 / 8"
        using assms(2) by (simp add: r_def u)
      then have "(of_int m :: rat) < 5 * 2 ^ 50"
        using round_half_even_bounds(1) [of r] by (simp add: m_def)
      then show ?thesis
        by (simp add: v u)
    qed
    from lo hi show ?thesis ..
  qed
  then show "0 \<le> fl64 x" "fl64 x < 5" by blast+
qed

lemma changeHR_range:
  assumes "0 \<le> u1" "u1 \<le> 1 - 1 / 2 ^ 53"
  shows "0 \<le> \<lfloor>fl64 (u1 * 5)\<rfloor>" "\<lfloor>fl64 (u1 * 5)\<rfloor> \<le> 4"
proof -
  have "0 \<le> u1 * 5" "u1 * 5 \<le> 5 - 5 / 2 ^ 53"
    using assms by simp_all
  then have b: "0 \<le> fl64 (u1 * 5)" "fl64 (u1 * 5) < 5"
    by (rule fl64_below_5)+
  show "0 \<le> \<lfloor>fl64 (u1 * 5)\<rfloor>"
    using b(1) by simp
  have "\<lfloor>fl64 (u1 * 5)\<rfloor> < 5"
    using b(2) by (simp add: floor_less_iff)
  then show "\<lfloor>fl64 (u1 * 5)\<rfloor> \<le> 4" by simp
qed

subsection \<open>The walk\<close>

lemma fl64_literals:
  "fl64 (373 / 10) = 2624754157826867 / 70368744177664"
  "fl64 (7 / 10) = 3152519739159347 / 4503599627370496"
  by code_simp+

lemma mock_step_eq:
  "mock_step u1 u2 u3 u4 (hr, t, ox) =
     (max 60 (min 110 (hr + (\<lfloor>fl64 (u1 * 5)\<rfloor> - 2))),
      max 36 (min (fl64 (373 / 10))
        (fl64 (t + fl64 (fl64 (u2 * fl64 (2 / 10)) - fl64 (1 / 10))))),
      (if u3 > fl64 (7 / 10) then max 95 (min 100 (ox + (if u4 > 5 / 10 then 1 else - 1)))
       else ox))"
  by (simp add: mock_step_def Let_def)

lemma mock_in_range_initial: "mock_in_range mock_initial"
  by (simp add: mock_in_range_def mock_initial_def fl64_literals)

lemma mock_in_range_step:
  assumes "mock_in_range m"
  shows "mock_in_range (mock_step u1 u2 u3 u4 m)"
proof -
  obtain hr t ox where m: "m = (hr, t, ox)"
    by (cases m) auto
  have ox: "95 \<le> ox" "ox \<le> 100"
    using assms by (simp_all add: m mock_in_range_def)
  have c: "(36::rat) \<le> fl64 (373 / 10)"
    by (simp add: fl64_literals)
  define x where "x = fl64 (t + fl64 (fl64 (u2 * fl64 (2 / 10)) - fl64 (1 / 10)))"
  have t: "36 \<le> max 36 (min (fl64 (373 / 10)) x)" "max 36 (min (fl64 (373 / 10)) x) \<le> fl64 (373 / 10)"
    using c by (simp_all add: max_def min_def)
  have hr: "60 \<le> max 60 (min 110 (hr + (\<lfloor>fl64 (u1 * 5)\<rfloor> - 2)))"
    "max 60 (min 110 (hr + (\<lfloor>fl64 (u1 * 5)\<rfloor> - 2))) \<le> 110"
    by linarith+
  have o: "95 \<le> (if u3 > fl64 (7 / 10) then max 95 (min 100 (ox + (if u4 > 5 / 10 then 1 else - 1)))
       else ox)"
    "(if u3 > fl64 (7 / 10) then max 95 (min 100 (ox + (if u4 > 5 / 10 then 1 else - 1)))
       else ox) \<le> 100"
    using ox by (simp_all add: max_def min_def)
  show ?thesis
    unfolding m mock_step_eq mock_in_range_def prod.case
    using hr t o unfolding x_def by (intro conjI)
qed

lemma mock_step_cases:
  "mock (step e sys) = mock sys \<or> mock (step e sys) = mock_initial \<or>
   (\<exists>u1 u2 u3 u4. mock (step e sys) = mock_step u1 u2 u3 u4 (mock sys))"
proof (cases e)
  case (ClickConnect res clk)
  then show ?thesis
    by (cases res) (simp_all add: connectBluetooth_def Let_def)
next
  case (ClickDisconnect now)
  then show ?thesis by simp
next
  case (ClickDemo now)
  then show ?thesis by (simp add: toggleDemo_def Let_def)
next
  case (Notification now payload)
  then show ?thesis by (simp split: option.splits)
next
  case (Tick now u1 u2 u3 u4)
  then show ?thesis by (auto simp: Let_def)
qed

lemma mock_in_range_run: "mock_in_range (mock sys) \<Longrightarrow> mock_in_range (mock (run es sys))"
proof (induction es arbitrary: sys)
  case Nil
  then show ?case by simp
next
  case (Cons e es)
  have "mock_in_range (mock (step e sys))"
    using mock_step_cases [of e sys] Cons.prems
    by (auto simp: mock_in_range_initial mock_in_range_step)
  then show ?case
    using Cons.IH by simp
qed

lemma mock_in_range_reachable: "mock_in_range (mock (run es initial_system))"
  using mock_in_range_run [of initial_system es]
  by (simp add: initial_system_def mock_in_range_initial)

lemma toFixed1_tenths:
  assumes "36 \<le> t" "t \<le> fl64 (373 / 10)"
  shows "\<exists>n::int. 360 \<le> n \<and> n \<le> 373 \<and> toFixed1 t = of_int n / 10"
proof -
  have t: "t < 3735 / 100"
    using assms(2) by (simp add: fl64_literals)
  have "360 \<le> 10 * t + 1 / 2" using assms(1) by simp
  then have lo: "360 \<le> \<lfloor>10 * t + 1 / 2\<rfloor>" by (simp add: le_floor_iff)
  have "10 * t + 1 / 2 < 374" using t by simp
  then have "\<lfloor>10 * t + 1 / 2\<rfloor> < 374" by (simp add: floor_less_iff)
  then have hi: "\<lfloor>10 * t + 1 / 2\<rfloor> \<le> 373" by simp
  show ?thesis
    using lo hi unfolding toFixed1_def by blast
qed

lemma step_Tick_demo:
  assumes "isDemoMode (ui sys)"
  shows "mock (step (Tick now u1 u2 u3 u4) sys) = mock_step u1 u2 u3 u4 (mock sys)"
    "ui (step (Tick now u1 u2 u3 u4) sys) =
       demoTick now (mock_step u1 u2 u3 u4 (mock sys)) (ui sys)"
  using assms by (simp_all add: Let_def)

lemma changeHR_values:
  "\<lfloor>fl64 (7 / 8 * 5)\<rfloor> - 2 = 2" "\<lfloor>fl64 (0 * 5 :: rat)\<rfloor> - 2 = - 2"
  "\<lfloor>fl64 (1 / 2 * 5)\<rfloor> - 2 = 0"
  by code_simp+

lemma temp_hold:
  "max 36 (min (fl64 (373 / 10))
     (fl64 (365 / 10 + fl64 (fl64 (1 / 2 * fl64 (2 / 10)) - fl64 (1 / 10))))) = 365 / 10"
  by code_simp

lemma fires: "fl64 (7 / 10) < 3 / 4" "\<not> fl64 (7 / 10) < 0"
  by (simp_all add: fl64_literals)

lemma hr_up:
  "mock_step (7 / 8) (1 / 2) (3 / 4) (3 / 4) (hr, 73 / 2, ox) =
     (max 60 (min 110 (hr + 2)), 73 / 2, max 95 (min 100 (ox + 1)))"
proof -
  have "mock_step (7 / 8) (1 / 2) (3 / 4) (3 / 4) (hr, 365 / 10, ox) =
     (max 60 (min 110 (hr + 2)), 365 / 10, max 95 (min 100 (ox + 1)))"
    unfolding mock_step_eq changeHR_values temp_hold using fires by simp
  then show ?thesis by simp
qed

lemma hr_down:
  "mock_step 0 (1 / 2) (3 / 4) 0 (hr, 73 / 2, ox) =
     (max 60 (min 110 (hr - 2)), 73 / 2, max 95 (min 100 (ox - 1)))"
proof -
  have "mock_step 0 (1 / 2) (3 / 4) 0 (hr, 365 / 10, ox) =
     (max 60 (min 110 (hr + - 2)), 365 / 10, max 95 (min 100 (ox + - 1)))"
    unfolding mock_step_eq changeHR_values temp_hold using fires by simp
  then show ?thesis by simp
qed

lemma ox_up:
  "mock_step (1 / 2) (1 / 2) (3 / 4) (3 / 4) (hr, 73 / 2, ox) =
     (max 60 (min 110 hr), 73 / 2, max 95 (min 100 (ox + 1)))"
proof -
  have "mock_step (1 / 2) (1 / 2) (3 / 4) (3 / 4) (hr, 365 / 10, ox) =
     (max 60 (min 110 (hr + 0)), 365 / 10, max 95 (min 100 (ox + 1)))"
    unfolding mock_step_eq changeHR_values temp_hold using fires by simp
  then show ?thesis by simp
qed

lemma hr_up_walk:
  "((mock_step (7 / 8) (1 / 2) (3 / 4) (3 / 4)) ^^ 18) mock_initial = (110, 73 / 2, 100)"
  by (simp add: eval_nat_numeral mock_initial_def hr_up)

lemma hr_down_walk:
  "((mock_step 0 (1 / 2) (3 / 4) 0) ^^ 8) mock_initial = (60, 73 / 2, 95)"
  by (simp add: eval_nat_numeral mock_initial_def hr_down)

lemma toFixed1_values:
  "toFixed1 (2624754157826867 / 70368744177664) = 373 / 10" "toFixed1 36 = 36"
  "toFixed1 (73 / 2) = 73 / 2"
  by code_simp+

lemma isDemoMode_demoTick: "isDemoMode (demoTick now m s) = isDemoMode s"
  by (cases m) (simp add: demoTick_def updateData_def)

lemma run_ticks:
  assumes "isDemoMode (ui sys)"
  shows "isDemoMode (ui (run (replicate n (Tick now u1 u2 u3 u4)) sys)) \<and>
    mock (run (replicate n (Tick now u1 u2 u3 u4)) sys) =
      ((mock_step u1 u2 u3 u4) ^^ n) (mock sys) \<and>
    (0 < n \<longrightarrow>
      last (data (ui (run (replicate n (Tick now u1 u2 u3 u4)) sys))) =
        (case ((mock_step u1 u2 u3 u4) ^^ n) (mock sys) of (hr, t, ox) \<Rightarrow>
           \<lparr>time = now, heartRate = Num (of_int hr), temperature = Num (toFixed1 t),
            oxygen = Num (of_int ox)\<rparr>))"
  using assms
proof (induction n arbitrary: sys)
  case 0
  then show ?case by simp
next
  case (Suc n)
  let ?e = "Tick now u1 u2 u3 u4"
  let ?s = "step ?e sys"
  have demo: "isDemoMode (ui ?s)"
    using Suc.prems by (simp add: Let_def isDemoMode_demoTick)
  have m: "mock ?s = mock_step u1 u2 u3 u4 (mock sys)"
    using Suc.prems by (simp add: Let_def)
  have l: "last (data (ui ?s)) =
        (case mock_step u1 u2 u3 u4 (mock sys) of (hr, t, ox) \<Rightarrow>
           \<lparr>time = now, heartRate = Num (of_int hr), temperature = Num (toFixed1 t),
            oxygen = Num (of_int ox)\<rparr>)"
    using Suc.prems
    by (cases "mock_step u1 u2 u3 u4 (mock sys)")
      (simp add: Let_def demoTick_def last_data_updateData)
  note ih = Suc.IH [OF demo]
  have r: "run (replicate (Suc n) ?e) sys = run (replicate n ?e) ?s"
    by simp
  show ?case
  proof (cases n)
    case 0
    then show ?thesis
      using demo m l by (simp del: step.simps)
  next
    case (Suc k)
    then have npos: "0 < n" by simp
    show ?thesis
      unfolding r using ih npos by (simp add: m funpow_swap1 del: step.simps replicate.simps)
  qed
qed

lemma demo_started:
  "isDemoMode (ui (toggleDemo now initial_system))"
  "mock (toggleDemo now initial_system) = mock_initial"
  by (simp_all add: toggleDemo_def Let_def initial_system_def initial_state_def addLog_def)

lemma last_after_ticks:
  assumes "0 < n"
  shows "last (data (ui (run (replicate n (Tick now u1 u2 u3 u4))
                       (toggleDemo now0 initial_system)))) =
        (case ((mock_step u1 u2 u3 u4) ^^ n) mock_initial of (hr, t, ox) \<Rightarrow>
           \<lparr>time = now, heartRate = Num (of_int hr), temperature = Num (toFixed1 t),
            oxygen = Num (of_int ox)\<rparr>)"
  using run_ticks [OF demo_started(1), of n now u1 u2 u3 u4 now0] assms
  by (simp add: demo_started(2))

lemma temp_up_1:
  "mock_step (1 / 2) (9007199254740991 / 9007199254740992) 0 0 (75, 73 / 2, 98) =
     (75, 5150992073805005 / 140737488355328, 98)"
  by code_simp

lemma temp_up_2:
  "mock_step (1 / 2) (9007199254740991 / 9007199254740992) 0 0 (75, 5150992073805005 / 140737488355328, 98) =
     (75, 2582532911320269 / 70368744177664, 98)"
  by code_simp

lemma temp_up_3:
  "mock_step (1 / 2) (9007199254740991 / 9007199254740992) 0 0 (75, 2582532911320269 / 70368744177664, 98) =
     (75, 5179139571476071 / 140737488355328, 98)"
  by code_simp

lemma temp_up_4:
  "mock_step (1 / 2) (9007199254740991 / 9007199254740992) 0 0 (75, 5179139571476071 / 140737488355328, 98) =
     (75, 1298303330077901 / 35184372088832, 98)"
  by code_simp

lemma temp_up_5:
  "mock_step (1 / 2) (9007199254740991 / 9007199254740992) 0 0 (75, 1298303330077901 / 35184372088832, 98) =
     (75, 5207287069147137 / 140737488355328, 98)"
  by code_simp

lemma temp_up_6:
  "mock_step (1 / 2) (9007199254740991 / 9007199254740992) 0 0 (75, 5207287069147137 / 140737488355328, 98) =
     (75, 2610680408991335 / 70368744177664, 98)"
  by code_simp

lemma temp_up_7:
  "mock_step (1 / 2) (9007199254740991 / 9007199254740992) 0 0 (75, 2610680408991335 / 70368744177664, 98) =
     (75, 5235434566818203 / 140737488355328, 98)"
  by code_simp

lemma temp_up_8:
  "mock_step (1 / 2) (9007199254740991 / 9007199254740992) 0 0 (75, 5235434566818203 / 140737488355328, 98) =
     (75, 2624754157826867 / 70368744177664, 98)"
  by code_simp

lemma temp_down_1:
  "mock_step (1 / 2) 0 0 0 (75, 73 / 2, 98) = (75, 5122844576133939 / 140737488355328, 98)"
  by code_simp

lemma temp_down_2:
  "mock_step (1 / 2) 0 0 0 (75, 5122844576133939 / 140737488355328, 98) = (75, 2554385413649203 / 70368744177664, 98)"
  by code_simp

lemma temp_down_3:
  "mock_step (1 / 2) 0 0 0 (75, 2554385413649203 / 70368744177664, 98) = (75, 5094697078462873 / 140737488355328, 98)"
  by code_simp

lemma temp_down_4:
  "mock_step (1 / 2) 0 0 0 (75, 5094697078462873 / 140737488355328, 98) = (75, 1270155832406835 / 35184372088832, 98)"
  by code_simp

lemma temp_down_5:
  "mock_step (1 / 2) 0 0 0 (75, 1270155832406835 / 35184372088832, 98) = (75, 36, 98)"
  by code_simp

lemma temp_up_walk:
  "((mock_step (1 / 2) (9007199254740991 / 9007199254740992) 0 0) ^^ 8) mock_initial =
     (75, 2624754157826867 / 70368744177664, 98)"
  by (simp add: eval_nat_numeral mock_initial_def temp_up_1 temp_up_2 temp_up_3 temp_up_4 temp_up_5 temp_up_6 temp_up_7 temp_up_8)

lemma temp_down_walk:
  "((mock_step (1 / 2) 0 0 0) ^^ 5) mock_initial = (75, 36, 98)"
  by (simp add: eval_nat_numeral mock_initial_def temp_down_1 temp_down_2 temp_down_3 temp_down_4 temp_down_5)

text \<open>
  C5 as amended. Let the page be in any state it can reach, with demo mode on, and let the
  timer tick with a first draw that is a double in \<open>[0, 1)\<close> (at most \<open>1 - 1 / 2 ^ 53\<close>). The
  tick appends the sample made of the generator's new values. Its heart rate is in
  \<open>[60, 110]\<close> and differs from the previous value by at most 2. Its temperature is one of
  \<open>36.0, 36.1, \<dots>, 37.3\<close>: a number with one fractional digit in \<open>[36.0, 37.3]\<close>. Its
  oxygen is in \<open>[95, 100]\<close>; it is the previous value unless the third draw exceeds the
  double \<open>0.7\<close>, and then it is the previous value plus 1 (at most 100) when the fourth
  draw exceeds 0.5, or minus 1 (at least 95) otherwise. All six bounds are reached by samples
  the timer emits after the demo button is clicked: heart rate 110 and oxygen 100 after 18
  ticks, heart rate 60 and oxygen 95 after 8, temperature 37.3 after 8 and 36.0 after 5.
  The draws are inputs: how often \<^verbatim>\<open>Math.random()\<close> exceeds 0.7 is a property of the
  browser's generator, not of this code.
\<close>

theorem demo_tick_sample:
  "(isDemoMode (ui (run es initial_system)) \<and> 0 \<le> u1 \<and> u1 \<le> 1 - 1 / 2 ^ 53 \<longrightarrow>
    (case mock (run es initial_system) of (hr, t, ox) \<Rightarrow>
     case mock (step (Tick now u1 u2 u3 u4) (run es initial_system)) of (hr', t', ox') \<Rightarrow>
       data (ui (step (Tick now u1 u2 u3 u4) (run es initial_system))) =
         appendPoint (data (ui (run es initial_system)))
           \<lparr>time = now, heartRate = Num (of_int hr'), temperature = Num (toFixed1 t'),
            oxygen = Num (of_int ox')\<rparr> \<and>
       60 \<le> hr' \<and> hr' \<le> 110 \<and> - 2 \<le> hr' - hr \<and> hr' - hr \<le> 2 \<and>
       (\<exists>n::int. 360 \<le> n \<and> n \<le> 373 \<and> toFixed1 t' = of_int n / 10) \<and>
       95 \<le> ox' \<and> ox' \<le> 100 \<and>
       (if fl64 (7 / 10) < u3
        then (if 1 / 2 < u4 then ox' = min 100 (ox + 1) else ox' = max 95 (ox - 1))
        else ox' = ox))) \<and>
   last (data (ui (run (ClickDemo ''12:00:00'' #
                        replicate 18 (Tick ''12:00:01'' (7 / 8) (1 / 2) (3 / 4) (3 / 4)))
                     initial_system))) =
     \<lparr>time = ''12:00:01'', heartRate = Num 110, temperature = Num (365 / 10), oxygen = Num 100\<rparr> \<and>
   last (data (ui (run (ClickDemo ''12:00:00'' #
                        replicate 8 (Tick ''12:00:01'' 0 (1 / 2) (3 / 4) 0))
                     initial_system))) =
     \<lparr>time = ''12:00:01'', heartRate = Num 60, temperature = Num (365 / 10), oxygen = Num 95\<rparr> \<and>
   last (data (ui (run (ClickDemo ''12:00:00'' #
                        replicate 8 (Tick ''12:00:01'' (1 / 2)
                                       (9007199254740991 / 9007199254740992) 0 0))
                     initial_system))) =
     \<lparr>time = ''12:00:01'', heartRate = Num 75, temperature = Num (373 / 10), oxygen = Num 98\<rparr> \<and>
   last (data (ui (run (ClickDemo ''12:00:00'' #
                        replicate 5 (Tick ''12:00:01'' (1 / 2) 0 0 0))
                     initial_system))) =
     \<lparr>time = ''12:00:01'', heartRate = Num 75, temperature = Num 36, oxygen = Num 98\<rparr>"
proof (intro conjI impI)
  assume h: "isDemoMode (ui (run es initial_system)) \<and> 0 \<le> u1 \<and> u1 \<le> 1 - 1 / 2 ^ 53"
  define sys where "sys = run es initial_system"
  obtain hr t ox where m: "mock sys = (hr, t, ox)"
    by (cases "mock sys") auto
  define k where "k = \<lfloor>fl64 (u1 * 5)\<rfloor>"
  define hr' where "hr' = max 60 (min 110 (hr + (k - 2)))"
  define t' where "t' = max 36 (min (fl64 (373 / 10))
        (fl64 (t + fl64 (fl64 (u2 * fl64 (2 / 10)) - fl64 (1 / 10)))))"
  define ox' where "ox' =
    (if u3 > fl64 (7 / 10) then max 95 (min 100 (ox + (if u4 > 5 / 10 then 1 else - 1))) else ox)"
  have st: "mock_step u1 u2 u3 u4 (hr, t, ox) = (hr', t', ox')"
    by (simp add: mock_step_eq hr'_def k_def t'_def ox'_def)
  have demo: "isDemoMode (ui sys)"
    using h by (simp add: sys_def)
  have m': "mock (step (Tick now u1 u2 u3 u4) sys) = (hr', t', ox')"
    using step_Tick_demo(1) [OF demo] by (simp add: m st)
  have d: "data (ui (step (Tick now u1 u2 u3 u4) sys)) =
         appendPoint (data (ui sys))
           \<lparr>time = now, heartRate = Num (of_int hr'), temperature = Num (toFixed1 t'),
            oxygen = Num (of_int ox')\<rparr>"
    using step_Tick_demo(2) [OF demo]
    by (simp add: m st demoTick_def updateData_def)
  have inv: "mock_in_range (hr, t, ox)"
    using mock_in_range_reachable [of es] by (simp add: sys_def [symmetric] m)
  then have r: "60 \<le> hr" "hr \<le> 110" "95 \<le> ox" "ox \<le> 100"
    by (simp_all add: mock_in_range_def)
  have "mock_in_range (hr', t', ox')"
    using mock_in_range_step [OF inv, of u1 u2 u3 u4] by (simp add: st)
  then have r': "60 \<le> hr'" "hr' \<le> 110" "36 \<le> t'" "t' \<le> fl64 (373 / 10)" "95 \<le> ox'" "ox' \<le> 100"
    by (simp_all add: mock_in_range_def)
  have c: "0 \<le> k" "k \<le> 4"
    using h changeHR_range [of u1] unfolding k_def by blast+
  have dhr: "- 2 \<le> hr' - hr" "hr' - hr \<le> 2"
    using c r(1,2) unfolding hr'_def by linarith+
  have tenths: "\<exists>n::int. 360 \<le> n \<and> n \<le> 373 \<and> toFixed1 t' = of_int n / 10"
    using r'(3,4) by (rule toFixed1_tenths)
  have oxs: "if fl64 (7 / 10) < u3
        then (if 1 / 2 < u4 then ox' = min 100 (ox + 1) else ox' = max 95 (ox - 1))
        else ox' = ox"
    using r(3,4) unfolding ox'_def max_def min_def by (simp split: if_splits)
  show "case mock (run es initial_system) of (hr, t, ox) \<Rightarrow>
     case mock (step (Tick now u1 u2 u3 u4) (run es initial_system)) of (hr', t', ox') \<Rightarrow>
       data (ui (step (Tick now u1 u2 u3 u4) (run es initial_system))) =
         appendPoint (data (ui (run es initial_system)))
           \<lparr>time = now, heartRate = Num (of_int hr'), temperature = Num (toFixed1 t'),
            oxygen = Num (of_int ox')\<rparr> \<and>
       60 \<le> hr' \<and> hr' \<le> 110 \<and> - 2 \<le> hr' - hr \<and> hr' - hr \<le> 2 \<and>
       (\<exists>n::int. 360 \<le> n \<and> n \<le> 373 \<and> toFixed1 t' = of_int n / 10) \<and>
       95 \<le> ox' \<and> ox' \<le> 100 \<and>
       (if fl64 (7 / 10) < u3
        then (if 1 / 2 < u4 then ox' = min 100 (ox + 1) else ox' = max 95 (ox - 1))
        else ox' = ox)"
    unfolding sys_def [symmetric] m m' prod.case
    using d r'(1,2,5,6) dhr tenths oxs by (intro conjI)
next
  show "last (data (ui (run (ClickDemo ''12:00:00'' #
                        replicate 18 (Tick ''12:00:01'' (7 / 8) (1 / 2) (3 / 4) (3 / 4)))
                     initial_system))) =
     \<lparr>time = ''12:00:01'', heartRate = Num 110, temperature = Num (365 / 10), oxygen = Num 100\<rparr>"
    by (simp add: last_after_ticks hr_up_walk toFixed1_values)
  show "last (data (ui (run (ClickDemo ''12:00:00'' #
                        replicate 8 (Tick ''12:00:01'' 0 (1 / 2) (3 / 4) 0))
                     initial_system))) =
     \<lparr>time = ''12:00:01'', heartRate = Num 60, temperature = Num (365 / 10), oxygen = Num 95\<rparr>"
    by (simp add: last_after_ticks hr_down_walk toFixed1_values)
  show "last (data (ui (run (ClickDemo ''12:00:00'' #
                        replicate 8 (Tick ''12:00:01'' (1 / 2)
                                       (9007199254740991 / 9007199254740992) 0 0))
                     initial_system))) =
     \<lparr>time = ''12:00:01'', heartRate = Num 75, temperature = Num (373 / 10), oxygen = Num 98\<rparr>"
    by (simp add: last_after_ticks temp_up_walk toFixed1_values)
  show "last (data (ui (run (ClickDemo ''12:00:00'' #
                        replicate 5 (Tick ''12:00:01'' (1 / 2) 0 0 0))
                     initial_system))) =
     \<lparr>time = ''12:00:01'', heartRate = Num 75, temperature = Num 36, oxygen = Num 98\<rparr>"
    by (simp add: last_after_ticks temp_down_walk toFixed1_values)
qed

text \<open>
  The instance of amended C5 for the first tick after the demo button is clicked, with the
  draws 0.875, 0.5, 0.75, 0.75: the sample \<open>(77, 36.5, 99)\<close>.
\<close>

theorem demo_tick_sample_witness:
  "isDemoMode (ui (run [ClickDemo ''12:00:00''] initial_system)) \<and>
   (0::rat) \<le> 7 / 8 \<and> (7 / 8 :: rat) \<le> 1 - 1 / 2 ^ 53 \<and>
   data (ui (step (Tick ''12:00:01'' (7 / 8) (1 / 2) (3 / 4) (3 / 4))
                (run [ClickDemo ''12:00:00''] initial_system))) =
     [\<lparr>time = ''12:00:01'', heartRate = Num 77, temperature = Num (365 / 10), oxygen = Num 99\<rparr>]"
proof -
  let ?sys = "run [ClickDemo ''12:00:00''] initial_system"
  have sys: "?sys = toggleDemo ''12:00:00'' initial_system"
    by simp
  have h: "isDemoMode (ui ?sys) \<and> (0::rat) \<le> 7 / 8 \<and> (7 / 8 :: rat) \<le> 1 - 1 / 2 ^ 53"
    unfolding sys using demo_started(1) by simp
  have m0: "mock ?sys = (75, 73 / 2, 98)"
    unfolding sys by (simp add: demo_started(2) mock_initial_def)
  have m1: "mock (step (Tick ''12:00:01'' (7 / 8) (1 / 2) (3 / 4) (3 / 4)) ?sys) = (77, 73 / 2, 99)"
    using h by (simp add: Let_def m0 hr_up del: run.simps)
  have d0: "data (ui ?sys) = []"
    by (simp add: toggleDemo_def Let_def initial_system_def initial_state_def addLog_def)
  note w = demo_tick_sample [of "[ClickDemo ''12:00:00'']" "7 / 8" "''12:00:01''" "1 / 2"
      "3 / 4" "3 / 4", unfolded m0 m1 prod.case]
  from w h have "data (ui (step (Tick ''12:00:01'' (7 / 8) (1 / 2) (3 / 4) (3 / 4)) ?sys)) =
         appendPoint (data (ui ?sys))
           \<lparr>time = ''12:00:01'', heartRate = Num (of_int 77), temperature = Num (toFixed1 (73 / 2)),
            oxygen = Num (of_int 99)\<rparr>"
    by blast
  then have "data (ui (step (Tick ''12:00:01'' (7 / 8) (1 / 2) (3 / 4) (3 / 4)) ?sys)) =
     [\<lparr>time = ''12:00:01'', heartRate = Num 77, temperature = Num (365 / 10), oxygen = Num 99\<rparr>]"
    unfolding d0 by (simp add: appendPoint_def MAX_DATA_POINTS_def toFixed1_values del: run.simps step.simps)
  with h show ?thesis
    by blast
qed

text \<open>
  C5 states that oxygen changes by \<open>+1\<close> or \<open>-1\<close> with probability 0.3 per tick and is
  otherwise held. At a bound this fails whatever the distribution of the draws: three ticks
  whose third draw 0.75 exceeds 0.7 and whose fourth draw asks for \<open>+1\<close> give the oxygen
  values 99, 100 and 100; on the third tick the change branch is taken and the value is
  held at 100 by the clamp of line 166.
\<close>

theorem oxygen_held_at_bound:
  "fl64 (7 / 10) < 3 / 4 \<and>
   map oxygen (data (ui (run [ClickDemo ''12:00:00'',
                              Tick ''12:00:01'' (1 / 2) (1 / 2) (3 / 4) (3 / 4),
                              Tick ''12:00:02'' (1 / 2) (1 / 2) (3 / 4) (3 / 4),
                              Tick ''12:00:03'' (1 / 2) (1 / 2) (3 / 4) (3 / 4)]
                         initial_system))) = [Num 99, Num 100, Num 100]"
  by (simp add: fl64_literals toggleDemo_def Let_def initial_system_def initial_state_def addLog_def
      mock_initial_def ox_up demoTick_def updateData_def appendPoint_def MAX_DATA_POINTS_def)

section \<open>Claims about connecting\<close>

text \<open>
  C7 states that a failed \<^verbatim>\<open>connectBluetooth\<close> leaves everything but the error message
  as it was before the attempt. The function has no rollback: what it did before the failing
  step stays. When \<^verbatim>\<open>gatt.connect\<close> rejects for the device \<^verbatim>\<open>BioSync\<close>, starting from
  the initial state, \<^verbatim>\<open>device\<close> is the picked device (it was \<^verbatim>\<open>null\<close>) and the log
  holds two new lines (it was empty).
\<close>

theorem connect_failure_keeps_progress:
  "device (ui (connectBluetooth (ConnectFails ''BioSync'' network_error) sample_clock
                 initial_system)) = Some ''BioSync'' \<and>
   device (ui initial_system) = None \<and>
   logs (ui (connectBluetooth (ConnectFails ''BioSync'' network_error) sample_clock
               initial_system)) =
     [(''12:00:04'', LogDevice ''BioSync''), (''12:00:00'', LogSearching)] \<and>
   logs (ui initial_system) = [] \<and>
   errorMsg (ui (connectBluetooth (ConnectFails ''BioSync'' network_error) sample_clock
                   initial_system)) = Some (ErrConnectFailed ''Connection attempt failed.'')"
  by code_simp

lemma errorMsg_connect_failed:
  "errorMsg (connect_failed e s) =
     Some (if js_includes (err_toString e) ''permissions policy'' then ErrPermission
           else ErrConnectFailed (err_message e))"
  by (simp add: connect_failed_def)

text \<open>
  C7 as amended. Whenever \<^verbatim>\<open>connectBluetooth\<close> fails, one error message is set (the
  permission text when the error's string contains \<^verbatim>\<open>permissions policy\<close>, otherwise the
  failure text with the error's message), and \<^verbatim>\<open>isConnected\<close>, \<^verbatim>\<open>isDemoMode\<close>, the
  window, the three current values, the registered listener and the demo variables keep
  their values. The log lines written before the failing step stay in the log, and
  \<^verbatim>\<open>device\<close> stays set to the picked device when the failure comes after the device
  was chosen. Only when Web Bluetooth is missing are the log and the device untouched.
\<close>

theorem connect_failure_effects:
  "(\<forall>n. res \<noteq> Paired n) \<longrightarrow>
   errorMsg (ui (connectBluetooth res clk sys)) \<noteq> None \<and>
   isConnected (ui (connectBluetooth res clk sys)) = isConnected (ui sys) \<and>
   isDemoMode (ui (connectBluetooth res clk sys)) = isDemoMode (ui sys) \<and>
   data (ui (connectBluetooth res clk sys)) = data (ui sys) \<and>
   currentHR (ui (connectBluetooth res clk sys)) = currentHR (ui sys) \<and>
   currentTemp (ui (connectBluetooth res clk sys)) = currentTemp (ui sys) \<and>
   currentSpO2 (ui (connectBluetooth res clk sys)) = currentSpO2 (ui sys) \<and>
   listener (connectBluetooth res clk sys) = listener sys \<and>
   mock (connectBluetooth res clk sys) = mock sys \<and>
   (case res of
      NoBluetooth \<Rightarrow>
        errorMsg (ui (connectBluetooth res clk sys)) =
          Some (ErrConnectFailed (err_message unsupported_error)) \<and>
        device (ui (connectBluetooth res clk sys)) = device (ui sys) \<and>
        logs (ui (connectBluetooth res clk sys)) = logs (ui sys)
    | RequestFails e \<Rightarrow>
        errorMsg (ui (connectBluetooth res clk sys)) =
          Some (if js_includes (err_toString e) ''permissions policy'' then ErrPermission
                else ErrConnectFailed (err_message e)) \<and>
        device (ui (connectBluetooth res clk sys)) = device (ui sys) \<and>
        logs (ui (connectBluetooth res clk sys)) =
          (clk 0, LogSearching) # take 4 (logs (ui sys))
    | ConnectFails n e \<Rightarrow>
        errorMsg (ui (connectBluetooth res clk sys)) =
          Some (if js_includes (err_toString e) ''permissions policy'' then ErrPermission
                else ErrConnectFailed (err_message e)) \<and>
        device (ui (connectBluetooth res clk sys)) = Some n \<and>
        logs (ui (connectBluetooth res clk sys)) =
          (clk 1, LogDevice n) # (clk 0, LogSearching) # take 3 (logs (ui sys))
    | SetupFails n e \<Rightarrow>
        errorMsg (ui (connectBluetooth res clk sys)) =
          Some (if js_includes (err_toString e) ''permissions policy'' then ErrPermission
                else ErrConnectFailed (err_message e)) \<and>
        device (ui (connectBluetooth res clk sys)) = Some n \<and>
        logs (ui (connectBluetooth res clk sys)) =
          (clk 2, LogConnected) # (clk 1, LogDevice n) # (clk 0, LogSearching) #
          take 2 (logs (ui sys))
    | Paired n \<Rightarrow> True)"
proof (cases res)
  case NoBluetooth
  have "\<not> js_includes (err_toString unsupported_error) ''permissions policy''"
    by code_simp
  then show ?thesis
    by (simp add: NoBluetooth connectBluetooth_def Let_def connect_failed_def)
next
  case (RequestFails e)
  then show ?thesis
    by (simp add: connectBluetooth_def Let_def connect_failed_frame errorMsg_connect_failed
        addLog_def)
next
  case (ConnectFails n e)
  then show ?thesis
    by (simp add: connectBluetooth_def Let_def connect_failed_frame errorMsg_connect_failed
        addLog_def)
next
  case (SetupFails n e)
  then show ?thesis
    by (simp add: connectBluetooth_def Let_def connect_failed_frame errorMsg_connect_failed
        addLog_def)
next
  case (Paired n)
  then show ?thesis by simp
qed

text \<open>
  The instance of amended C7 for a failure of the service setup after the device
  \<^verbatim>\<open>BioSync\<close> was connected, from the initial state.
\<close>

theorem connect_failure_effects_witness:
  "(\<forall>n. SetupFails ''BioSync'' network_error \<noteq> Paired n) \<and>
   errorMsg (ui (connectBluetooth (SetupFails ''BioSync'' network_error) sample_clock
                   initial_system)) = Some (ErrConnectFailed ''Connection attempt failed.'') \<and>
   isConnected (ui (connectBluetooth (SetupFails ''BioSync'' network_error) sample_clock
                      initial_system)) = False \<and>
   data (ui (connectBluetooth (SetupFails ''BioSync'' network_error) sample_clock
               initial_system)) = [] \<and>
   device (ui (connectBluetooth (SetupFails ''BioSync'' network_error) sample_clock
                 initial_system)) = Some ''BioSync'' \<and>
   logs (ui (connectBluetooth (SetupFails ''BioSync'' network_error) sample_clock
               initial_system)) =
     [(''12:00:05'', LogConnected), (''12:00:04'', LogDevice ''BioSync''),
      (''12:00:00'', LogSearching)]"
proof -
  have h: "\<forall>n. SetupFails ''BioSync'' network_error \<noteq> Paired n"
    by simp
  have e: "\<not> js_includes (err_toString network_error) ''permissions policy''"
    "err_message network_error = ''Connection attempt failed.''"
    by code_simp+
  have c: "sample_clock 0 = ''12:00:00''" "sample_clock (Suc 0) = ''12:00:04''"
    "sample_clock 2 = ''12:00:05''"
    by code_simp+
  have i: "isConnected (ui initial_system) = False" "data (ui initial_system) = []"
    "logs (ui initial_system) = []"
    by (simp_all add: initial_system_def initial_state_def)
  from connect_failure_effects [of "SetupFails ''BioSync'' network_error" sample_clock
      initial_system] h
  show ?thesis
    by (simp add: e c i)
qed

section \<open>Claims about the page as a whole\<close>

text \<open>
  C3 states that \<^verbatim>\<open>isConnected\<close> and \<^verbatim>\<open>isDemoMode\<close> are never both true. The
  connect path keeps them apart (the connect button is disabled in demo mode, line 227, and
  a successful connect clears \<^verbatim>\<open>isDemoMode\<close>, line 90), but the demo button of line 235
  only negates \<^verbatim>\<open>isDemoMode\<close>: it is not disabled while connected and does not
  disconnect. After a successful connect and a click on the demo button both flags are
  true, and a notification and a timer tick then both append to the window.
\<close>

theorem demo_while_connected:
  "isConnected (ui (run [ClickConnect (Paired ''BioSync'') sample_clock,
                         ClickDemo ''12:00:10''] initial_system)) \<and>
   isDemoMode (ui (run [ClickConnect (Paired ''BioSync'') sample_clock,
                        ClickDemo ''12:00:10''] initial_system)) \<and>
   data (ui (run [ClickConnect (Paired ''BioSync'') sample_clock, ClickDemo ''12:00:10'',
                  Notification ''12:00:11'' ''H:80,T:36.6,O:97'',
                  Tick ''12:00:11'' 0 0 0 0] initial_system)) =
     [\<lparr>time = ''12:00:11'', heartRate = Num 80, temperature = Num (366 / 10), oxygen = Num 97\<rparr>,
      \<lparr>time = ''12:00:11'', heartRate = Num 73, temperature = Num (364 / 10), oxygen = Num 98\<rparr>]"
  by code_simp

text \<open>
  C2 states that a field absent from the payload keeps the value of the sample appended
  last. The handler reads \<^verbatim>\<open>currentHR\<close>, \<^verbatim>\<open>currentTemp\<close> and \<^verbatim>\<open>currentSpO2\<close> for
  that (lines 119-121), but the function registered as listener at line 86 is the closure
  of the render in which the connect button was clicked, whose three constants never change.
  After a connect from the initial state (all three are 0) and the sample
  \<open>(90, 36.5, 96)\<close>, the payload \<^verbatim>\<open>T:37.0\<close> appends \<open>(0, 37.0, 0)\<close>, not
  \<open>(90, 37.0, 96)\<close>, and the payload \<^verbatim>\<open>H:75\<close> appends \<open>(75, 0, 0)\<close>.
\<close>

theorem stale_carry_forward:
  "last (data (ui (run [ClickConnect (Paired ''BioSync'') sample_clock,
                        Notification ''12:00:10'' ''H:90,T:36.5,O:96'',
                        Notification ''12:00:11'' ''T:37.0''] initial_system))) =
     \<lparr>time = ''12:00:11'', heartRate = Num 0, temperature = Num 37, oxygen = Num 0\<rparr> \<and>
   last (data (ui (run [ClickConnect (Paired ''BioSync'') sample_clock,
                        Notification ''12:00:10'' ''H:90,T:36.5,O:96'',
                        Notification ''12:00:11'' ''H:75''] initial_system))) =
     \<lparr>time = ''12:00:11'', heartRate = Num 75, temperature = Num 0, oxygen = Num 0\<rparr> \<and>
   data (ui (run [ClickConnect (Paired ''BioSync'') sample_clock,
                  Notification ''12:00:10'' ''H:90,T:36.5,O:96''] initial_system)) =
     [\<lparr>time = ''12:00:10'', heartRate = Num 90, temperature = Num (365 / 10), oxygen = Num 96\<rparr>]"
  by code_simp


end
